theory Spec2Isabelle
  imports Complex_Main "HOL-Library.Multiset"
begin

section \<open>JavaScript strings\<close>

text \<open>
  A JavaScript string is a sequence of UTF-16 code units. The model keeps the code units
  below 256 (one \<^typ>\<open>char\<close> each); text outside that range is outside the model.
\<close>

definition is_digit :: "char \<Rightarrow> bool" where
  \<comment> \<open>the regular expression class \<open>\d\<close> and the decimal digits of the number grammar\<close>
  "is_digit c = (48 \<le> (of_char c :: nat) \<and> (of_char c :: nat) \<le> 57)"

definition digit_val :: "char \<Rightarrow> nat" where
  "digit_val c = of_char c - 48"

definition digits_val :: "string \<Rightarrow> nat" where
  "digits_val ds = foldl (\<lambda>n c. 10 * n + digit_val c) 0 ds"

definition is_space :: "char \<Rightarrow> bool" where
  \<comment> \<open>white space and line terminators below 256: TAB, LF, VT, FF, CR, SP, NBSP\<close>
  "is_space c = (of_char c \<in> {9, 10, 11, 12, 13, 32, 160 :: nat})"

definition trim :: "string \<Rightarrow> string" where
  "trim s = rev (dropWhile is_space (rev (dropWhile is_space s)))"

definition lower_char :: "char \<Rightarrow> char" where
  \<comment> \<open>\<open>A\<close>..\<open>Z\<close> and the Latin-1 capitals (0xC0..0xDE without 0xD7) move up by 32\<close>
  "lower_char c =
     (let n = (of_char c :: nat)
      in if (65 \<le> n \<and> n \<le> 90) \<or> (192 \<le> n \<and> n \<le> 222 \<and> n \<noteq> 215)
         then char_of (n + 32) else c)"

definition toLowerCase :: "string \<Rightarrow> string" where
  "toLowerCase s = map lower_char s"

definition starts_with :: "string \<Rightarrow> string \<Rightarrow> bool" where
  "starts_with s p = (take (length p) s = p)"

fun js_includes :: "string \<Rightarrow> string \<Rightarrow> bool" where
  \<comment> \<open>\<open>s.includes(p)\<close>: \<open>p\<close> occurs in \<open>s\<close> as a run of consecutive code units\<close>
  "js_includes [] p = (p = [])"
| "js_includes (c # cs) p = (starts_with (c # cs) p \<or> js_includes cs p)"

fun first_match :: "(string \<Rightarrow> 'a option) \<Rightarrow> string \<Rightarrow> 'a option" where
  \<comment> \<open>\<open>s.match(re)\<close> without the \<open>g\<close> flag: the match at the leftmost start index\<close>
  "first_match m [] = m []"
| "first_match m (c # cs) =
     (case m (c # cs) of Some g \<Rightarrow> Some g | None \<Rightarrow> first_match m cs)"

section \<open>JavaScript numbers\<close>

text \<open>
  A number is NaN, an infinity or a finite value. Finite values are exact rationals: the
  rounding of IEEE doubles, overflow to an infinity and the sign of zero are not modelled.
\<close>

datatype jsnum = NaN | Num rat | PInf | NInf

fun js_sub :: "jsnum \<Rightarrow> jsnum \<Rightarrow> jsnum" where
  "js_sub NaN b = NaN"
| "js_sub a NaN = NaN"
| "js_sub (Num a) (Num b) = Num (a - b)"
| "js_sub (Num a) PInf = NInf"
| "js_sub (Num a) NInf = PInf"
| "js_sub PInf PInf = NaN"
| "js_sub PInf b = PInf"
| "js_sub NInf NInf = NaN"
| "js_sub NInf b = NInf"

definition inf_of_sign :: "rat \<Rightarrow> jsnum" where
  \<comment> \<open>an infinity times or over a finite value of the given sign; zero times infinity is NaN\<close>
  "inf_of_sign a = (if a = 0 then NaN else if 0 < a then PInf else NInf)"

fun js_mul :: "jsnum \<Rightarrow> jsnum \<Rightarrow> jsnum" where
  "js_mul NaN b = NaN"
| "js_mul a NaN = NaN"
| "js_mul (Num a) (Num b) = Num (a * b)"
| "js_mul (Num a) PInf = inf_of_sign a"
| "js_mul (Num a) NInf = inf_of_sign (- a)"
| "js_mul PInf (Num b) = inf_of_sign b"
| "js_mul NInf (Num b) = inf_of_sign (- b)"
| "js_mul PInf PInf = PInf"
| "js_mul PInf NInf = NInf"
| "js_mul NInf PInf = NInf"
| "js_mul NInf NInf = PInf"

fun js_div :: "jsnum \<Rightarrow> jsnum \<Rightarrow> jsnum" where
  \<comment> \<open>a zero divisor is read as \<open>+0\<close>\<close>
  "js_div NaN b = NaN"
| "js_div a NaN = NaN"
| "js_div (Num a) (Num b) = (if b = 0 then inf_of_sign a else Num (a / b))"
| "js_div (Num a) b = Num 0"
| "js_div PInf (Num b) = (if 0 \<le> b then PInf else NInf)"
| "js_div NInf (Num b) = (if 0 \<le> b then NInf else PInf)"
| "js_div a b = NaN"

fun js_less :: "jsnum \<Rightarrow> jsnum \<Rightarrow> bool" where
  \<comment> \<open>\<open>a < b\<close>; every comparison with NaN is false\<close>
  "js_less NaN b = False"
| "js_less a NaN = False"
| "js_less (Num a) (Num b) = (a < b)"
| "js_less a PInf = (a \<noteq> PInf)"
| "js_less NInf b = (b \<noteq> NInf)"
| "js_less a b = False"

definition js_greater :: "jsnum \<Rightarrow> jsnum \<Rightarrow> bool" where
  "js_greater a b = js_less b a"

definition js_le :: "jsnum \<Rightarrow> jsnum \<Rightarrow> bool" where
  \<comment> \<open>\<open>a <= b\<close>\<close>
  "js_le a b = (a \<noteq> NaN \<and> b \<noteq> NaN \<and> \<not> js_less b a)"

definition Math_max :: "jsnum \<Rightarrow> jsnum \<Rightarrow> jsnum" where
  "Math_max a b = (if a = NaN \<or> b = NaN then NaN else if js_less a b then b else a)"

subsection \<open>Reading numbers\<close>

definition read_sign :: "string \<Rightarrow> bool \<times> string" where
  "read_sign s =
     (case s of
        [] \<Rightarrow> (False, s)
      | c # r \<Rightarrow> if c = CHR ''-'' then (True, r) else if c = CHR ''+'' then (False, r) else (False, s))"

definition read_exponent :: "string \<Rightarrow> int" where
  \<comment> \<open>an exponent part \<open>e\<close> or \<open>E\<close>, a sign, digits; absent or without digits it is 0\<close>
  "read_exponent s =
     (case s of
        [] \<Rightarrow> 0
      | c # r \<Rightarrow>
          if c = CHR ''e'' \<or> c = CHR ''E'' then
            (let (neg, u) = read_sign r; ds = takeWhile is_digit u
             in if ds = [] then 0 else if neg then - int (digits_val ds) else int (digits_val ds))
          else 0)"

definition scale10 :: "rat \<Rightarrow> int \<Rightarrow> rat" where
  "scale10 m e = (if 0 \<le> e then m * 10 ^ nat e else m / 10 ^ nat (- e))"

definition read_decimal :: "string \<Rightarrow> rat option" where
  \<comment> \<open>the longest prefix that is an unsigned decimal literal: digits, a point, digits, an exponent\<close>
  "read_decimal s =
     (let ip = takeWhile is_digit s;
          r1 = dropWhile is_digit s;
          point = starts_with r1 ''.'';
          fp = (if point then takeWhile is_digit (drop 1 r1) else []);
          r2 = (if point then dropWhile is_digit (drop 1 r1) else r1)
      in if ip = [] \<and> fp = [] then None
         else Some (scale10 (of_nat (digits_val ip) + of_nat (digits_val fp) / 10 ^ length fp)
                            (read_exponent r2)))"

definition parseFloat :: "string \<Rightarrow> jsnum" where
  "parseFloat s =
     (let (neg, u) = read_sign (dropWhile is_space s)
      in if starts_with u ''Infinity'' then (if neg then NInf else PInf)
         else case read_decimal u of
                None \<Rightarrow> NaN
              | Some q \<Rightarrow> Num (if neg then - q else q))"

definition parseInt :: "string \<Rightarrow> jsnum" where
  \<comment> \<open>Without a radix \<open>parseInt\<close> also reads a \<open>0x\<close> prefix as hexadecimal. Its only call
      passes a match of \<open>\d+\<close>, which has no such prefix: the model reads decimal digits.\<close>
  "parseInt s =
     (let (neg, u) = read_sign (dropWhile is_space s); ds = takeWhile is_digit u
      in if ds = [] then NaN
         else Num (if neg then - of_nat (digits_val ds) else of_nat (digits_val ds)))"

subsection \<open>Printing numbers\<close>

fun show_nat :: "nat \<Rightarrow> string" where
  "show_nat n =
     (if n < 10 then [char_of (48 + n)] else show_nat (n div 10) @ [char_of (48 + n mod 10)])"

declare show_nat.simps [simp del]

definition toFixed2 :: "jsnum \<Rightarrow> string" where
  \<comment> \<open>\<open>x.toFixed(2)\<close>: the nearest multiple of 1/100, the larger one on a tie, sign first.
      From \<open>10^21\<close> on JavaScript prints an exponent instead; the model prints all digits.\<close>
  "toFixed2 x =
     (case x of
        NaN \<Rightarrow> ''NaN''
      | PInf \<Rightarrow> ''Infinity''
      | NInf \<Rightarrow> ''-Infinity''
      | Num r \<Rightarrow>
          (let a = \<bar>r\<bar>;
               n = nat \<lfloor>a * 100 + 1 / 2\<rfloor>;
               m = show_nat n;
               m = replicate (3 - length m) CHR ''0'' @ m;
               k = length m - 2
           in (if r < 0 then ''-'' else '''') @ take k m @ ''.'' @ drop k m))"

section \<open>Regular expressions of the extractor\<close>

text \<open>
  Each pattern is written as the function that gives capture group 1 of a match starting
  at the head of the string, or \<open>None\<close>; \<^const>\<open>first_match\<close> tries the start indices from
  the left. The quantifiers are greedy, and in each pattern whatever follows a quantified
  part that took all it could always matches, so no backtracking changes the result.
\<close>

definition you_pay_at :: "string \<Rightarrow> string option" where
  \<comment> \<open>\<open>/You pay \$(\d+\.?\d*)/i\<close>\<close>
  "you_pay_at s =
     (let r = drop 9 s; ip = takeWhile is_digit r; r1 = dropWhile is_digit r
      in if toLowerCase (take 9 s) = ''you pay $'' \<and> ip \<noteq> [] then
           Some (if starts_with r1 ''.'' then ip @ ''.'' @ takeWhile is_digit (drop 1 r1) else ip)
         else None)"

definition percent_at :: "string \<Rightarrow> string option" where
  \<comment> \<open>\<open>/(\d+)%/\<close>\<close>
  "percent_at s =
     (let ip = takeWhile is_digit s
      in if ip \<noteq> [] \<and> starts_with (dropWhile is_digit s) ''%'' then Some ip else None)"

definition dollar_at :: "string \<Rightarrow> string option" where
  \<comment> \<open>\<open>/\$(\d+(\.\d{2})?)/\<close>\<close>
  "dollar_at s =
     (let r = drop 1 s; ip = takeWhile is_digit r; r1 = dropWhile is_digit r;
          fr = take 2 (drop 1 r1)
      in if starts_with s ''$'' \<and> ip \<noteq> [] then
           Some (if starts_with r1 ''.'' \<and> length fr = 2 \<and> list_all is_digit fr
                 then ip @ ''.'' @ fr else ip)
         else None)"

section \<open>The page\<close>

text \<open>
  An element is what the extractor reads of it. \<open>innerText\<close> and \<open>href\<close> are \<open>None\<close> where
  the property is \<open>undefined\<close> (an element that is not an HTML element, or not a link).
  A product container is an element together with what \<open>querySelector\<close> finds below it,
  \<open>None\<close> standing for \<open>null\<close>.
\<close>

record elem =
  innerText :: "string option"
  textContent :: string
  href :: "string option"

record item = elem +
  querySelector :: "string \<Rightarrow> elem option"

record document =
  location_href :: string
  body_innerHTML :: "string option"  \<comment> \<open>\<open>None\<close>: \<open>document.body\<close> is \<open>null\<close>\<close>
  querySelectorAll :: "string \<Rightarrow> item list"

datatype js_error = TypeError string

fun message :: "js_error \<Rightarrow> string" where
  "message (TypeError m) = m"

section \<open>The extractor\<close>

record listing =
  title :: "string option"
  url :: "string option"
  price :: string
  priceNum :: jsnum
  hasCoupon :: bool
  deliveryText :: string
  isDeliveryToday :: bool
  isDeliveryTomorrow :: bool

record frame_result =
  frame_url :: string
  html :: string

definition js_or :: "'a option \<Rightarrow> 'a option \<Rightarrow> 'a option" where
  \<comment> \<open>\<open>a || b\<close> on objects: \<open>null\<close> is the only falsy one\<close>
  "js_or a b = (case a of Some x \<Rightarrow> Some x | None \<Rightarrow> b)"

definition str_or :: "string option \<Rightarrow> string option \<Rightarrow> string option" where
  \<comment> \<open>\<open>a || b\<close> on strings: \<open>undefined\<close> and the empty string are falsy\<close>
  "str_or a b = (if a = None \<or> a = Some [] then b else a)"

definition str_or_empty :: "string option \<Rightarrow> string" where
  \<comment> \<open>\<open>a || ''\<close>\<close>
  "str_or_empty a = (case a of None \<Rightarrow> [] | Some s \<Rightarrow> s)"

definition find_items :: "document \<Rightarrow> item list" where
  \<open>find_items d =
     (let items = querySelectorAll d ''[data-component-type="s-search-result"]'';
          items = (if length items = 0 then querySelectorAll d ''.s-result-item'' else items);
          items = (if length items = 0 then querySelectorAll d ''.sg-col-inner'' else items)
      in items)\<close>

definition titleElem_of :: "item \<Rightarrow> elem option" where
  "titleElem_of it =
     js_or (js_or (querySelector it ''h2 a span'') (querySelector it ''.a-text-normal''))
           (querySelector it ''.a-link-normal span'')"

definition urlElem_of :: "item \<Rightarrow> elem option" where
  "urlElem_of it = js_or (querySelector it ''h2 a'') (querySelector it ''.a-link-normal'')"

definition priceWhole_of :: "item \<Rightarrow> string" where
  "priceWhole_of it =
     str_or_empty
       (str_or
          (map_option (\<lambda>t. remove1 CHR ''.'' (trim t))
             (Option.bind (querySelector it ''.a-price-whole'') innerText))
          (Option.bind (querySelector it ''.a-price'') innerText))"

definition priceFraction_of :: "item \<Rightarrow> string" where
  "priceFraction_of it =
     str_or_empty (map_option trim (Option.bind (querySelector it ''.a-price-fraction'') innerText))"

definition priceStr_of :: "item \<Rightarrow> string" where
  "priceStr_of it =
     (let priceWhole = priceWhole_of it; priceFraction = priceFraction_of it
      in if priceWhole \<noteq> [] then
           ''$'' @ priceWhole @ (if priceFraction \<noteq> [] then ''.'' @ priceFraction else [])
         else ''No Price'')"

definition priceNum_of :: "item \<Rightarrow> jsnum" where
  \<comment> \<open>\<open>replace('$', '')\<close> drops the first dollar sign, \<open>replace(/,/g, '')\<close> every comma\<close>
  "priceNum_of it =
     (let priceStr = priceStr_of it
      in if priceStr = ''No Price'' then Num (- 1)
         else parseFloat (filter (\<lambda>c. c \<noteq> CHR '','') (remove1 CHR ''$'' priceStr)))"

definition deliverySelectors :: "string list" where
  \<open>deliverySelectors =
     [''[data-test-id="delivery-time"]'',
      ''.a-color-base.a-text-bold'',
      ''.a-color-success'',
      ''.a-size-base.a-color-base'',
      ''[data-csa-c-type="link"][data-csa-c-content*="delivery"]'']\<close>

fun delivery_loop :: "item \<Rightarrow> string list \<Rightarrow> string \<times> bool \<times> bool" where
  \<comment> \<open>the loop over the selectors; the result is
      \<open>(deliveryText, isDeliveryToday, isDeliveryTomorrow)\<close>\<close>
  "delivery_loop it [] = ([], False, False)"
| "delivery_loop it (selector # rest) =
     (case querySelector it selector of
        None \<Rightarrow> delivery_loop it rest
      | Some deliveryElem \<Rightarrow>
          if textContent deliveryElem \<noteq> [] then
            (let text = toLowerCase (textContent deliveryElem)
             in if js_includes text ''today'' \<or> js_includes text ''same day'' \<or>
                   js_includes text ''within'' \<and> js_includes text ''hour''
                then (''Today'', True, False)
                else if js_includes text ''tomorrow'' \<or> js_includes text ''next day''
                then (''Tomorrow'', False, True)
                else delivery_loop it rest)
          else delivery_loop it rest)"

definition delivery_of :: "item \<Rightarrow> string \<times> bool \<times> bool" where
  "delivery_of it =
     (let (deliveryText, isDeliveryToday, isDeliveryTomorrow) = delivery_loop it deliverySelectors
      in if \<not> isDeliveryToday \<and> \<not> isDeliveryTomorrow then
           (let itemText = toLowerCase (textContent it)
            in if js_includes itemText ''get it today'' \<or>
                  js_includes itemText ''delivery today'' \<or>
                  js_includes itemText ''same-day delivery''
               then (''Today'', True, isDeliveryTomorrow)
               else if js_includes itemText ''get it tomorrow'' \<or>
                       js_includes itemText ''delivery tomorrow'' \<or>
                       js_includes itemText ''next-day delivery'' \<or>
                       js_includes itemText ''1-day delivery''
               then (''Tomorrow'', isDeliveryToday, True)
               else (deliveryText, isDeliveryToday, isDeliveryTomorrow))
         else (deliveryText, isDeliveryToday, isDeliveryTomorrow))"

definition couponElem_of :: "item \<Rightarrow> elem option" where
  \<open>couponElem_of it =
     js_or (querySelector it ''.s-coupon-unclipped'')
           (querySelector it ''[data-csa-c-element-type="coupon"]'')\<close>

definition finalPrice_of :: "item \<Rightarrow> string \<times> jsnum" where
  \<comment> \<open>\<open>(finalPrice, finalPriceNum)\<close> after the coupon block\<close>
  "finalPrice_of it =
     (let priceStr = priceStr_of it; priceNum = priceNum_of it
      in case couponElem_of it of
           None \<Rightarrow> (priceStr, priceNum)
         | Some couponElem \<Rightarrow>
             if js_greater priceNum (Num 0) then
               (case first_match you_pay_at (textContent it) of
                  Some g \<Rightarrow>
                    (let finalPriceNum = parseFloat g
                     in (''$'' @ toFixed2 finalPriceNum, finalPriceNum))
                | None \<Rightarrow>
                    (case first_match percent_at (textContent couponElem) of
                       Some g \<Rightarrow>
                         (let percentOff = parseInt g;
                              discountAmount = js_mul priceNum (js_div percentOff (Num 100));
                              finalPriceNum = js_sub priceNum discountAmount
                          in (''$'' @ toFixed2 finalPriceNum, finalPriceNum))
                     | None \<Rightarrow>
                         (case first_match dollar_at (textContent couponElem) of
                            Some g \<Rightarrow>
                              (let dollarOff = parseFloat g;
                                   finalPriceNum = Math_max (Num 0) (js_sub priceNum dollarOff)
                               in (''$'' @ toFixed2 finalPriceNum, finalPriceNum))
                          | None \<Rightarrow> (priceStr, priceNum))))
             else (priceStr, priceNum))"

definition process_item :: "item \<Rightarrow> listing option" where
  \<comment> \<open>one pass of the loop body: the entry pushed, or \<open>None\<close> when nothing is pushed\<close>
  "process_item it =
     (let (dText, today, tomorrow) = delivery_of it;
          (finalPrice, finalPriceNum) = finalPrice_of it
      in case titleElem_of it of
           None \<Rightarrow> None
         | Some titleElem \<Rightarrow>
             (case urlElem_of it of
                None \<Rightarrow> None
              | Some urlElem \<Rightarrow>
                  Some \<lparr>title = innerText titleElem, url = href urlElem, price = finalPrice,
                        priceNum = finalPriceNum, hasCoupon = (couponElem_of it \<noteq> None),
                        deliveryText = dText, isDeliveryToday = today,
                        isDeliveryTomorrow = tomorrow\<rparr>))"

fun processedItems :: "item list \<Rightarrow> listing list" where
  "processedItems [] = []"
| "processedItems (it # items) =
     (case process_item it of
        None \<Rightarrow> processedItems items
      | Some p \<Rightarrow> p # processedItems items)"

subsection \<open>Sorting\<close>

text \<open>
  \<open>Array.prototype.sort\<close> is stable. The comparison it makes is \<open>SortCompare\<close>: the value of
  the comparator, NaN read as \<open>+0\<close>. The model is the stable insertion sort; for a
  comparator that is not consistent (one that returns NaN for some pairs only) the
  language leaves the order to the implementation, and the engine's order can differ from
  the model's.
\<close>

definition comparefn :: "listing \<Rightarrow> listing \<Rightarrow> jsnum" where
  \<comment> \<open>\<open>(a, b) => a.priceNum - b.priceNum\<close>\<close>
  "comparefn a b = js_sub (priceNum a) (priceNum b)"

definition SortCompare :: "('a \<Rightarrow> 'a \<Rightarrow> jsnum) \<Rightarrow> 'a \<Rightarrow> 'a \<Rightarrow> jsnum" where
  "SortCompare f x y = (let v = f x y in if v = NaN then Num 0 else v)"

fun sort_insert :: "('a \<Rightarrow> 'a \<Rightarrow> jsnum) \<Rightarrow> 'a \<Rightarrow> 'a list \<Rightarrow> 'a list" where
  "sort_insert f x [] = [x]"
| "sort_insert f x (y # ys) =
     (if js_greater (SortCompare f x y) (Num 0) then y # sort_insert f x ys else x # y # ys)"

definition Array_sort :: "('a \<Rightarrow> 'a \<Rightarrow> jsnum) \<Rightarrow> 'a list \<Rightarrow> 'a list" where
  "Array_sort f xs = foldr (sort_insert f) xs []"

subsection \<open>Rendering\<close>

definition bool_str :: "bool \<Rightarrow> string" where
  "bool_str b = (if b then ''true'' else ''false'')"

definition template_str :: "string option \<Rightarrow> string" where
  \<comment> \<open>a string property inside a template literal\<close>
  "template_str a = (case a of None \<Rightarrow> ''undefined'' | Some s \<Rightarrow> s)"

definition html_head :: string where
  \<open>html_head = ''
      <style>
        body { 
          background-color: #1e1e1e;
          color: #e0e0e0;
          min-width: 600px;
          width: 600px;
        }
        #filter-input {
          width: 100%;
          padding: 8px;
          margin-bottom: 10px;
          background-color: #2d2d2d;
          border: 1px solid #444;
          color: #e0e0e0;
          border-radius: 4px;
          box-sizing: border-box;
        }
        #filter-input:focus {
          outline: none;
          border-color: #89CFF0;
        }
        .filter-controls {
          margin-bottom: 10px;
          display: flex;
          gap: 10px;
          align-items: center;
        }
        .delivery-filter {
          background-color: #2d2d2d;
          border: 1px solid #444;
          color: #e0e0e0;
          padding: 5px 10px;
          border-radius: 4px;
          cursor: pointer;
        }
        .delivery-filter:hover {
          background-color: #3d3d3d;
        }
        .delivery-filter.active {
          background-color: #4CAF50;
          border-color: #4CAF50;
        }
        table { 
          border-collapse: collapse; 
          width: 100%;
          background-color: #1e1e1e;
        }
        th, td { 
          padding: 6px 8px; 
          text-align: left; 
          border-bottom: 1px solid #333; 
        }
        th { 
          background-color: #2d2d2d;
          color: #e0e0e0;
        }
        tr:hover { 
          background-color: #2d2d2d; 
        }
        .hidden {
          display: none;
        }
        a {
          color: #89CFF0;
          text-decoration: none;
        }
        a:hover {
          text-decoration: underline;
        }
        .price-col { 
          text-align: right; 
          width: 80px;
        }
        .delivery-col {
          text-align: center;
          width: 70px;
          font-size: 12px;
        }
        .coupon-indicator {
          display: inline-block;
          width: 12px;
          height: 12px;
          background-color: #4CAF50;
          margin-right: 8px;
          vertical-align: middle;
          border-radius: 2px;
        }
        .coupon-price {
          color: #4CAF50;
          font-weight: bold;
        }
      </style>
      <input type="text" id="filter-input" placeholder="Filter products...">
      <div class="filter-controls">
        <button id="delivery-today-filter" class="delivery-filter">Del. Today</button>
        <button id="delivery-tomorrow-filter" class="delivery-filter">Del. Tomorrow</button>
        <button id="clear-filters" class="delivery-filter">Clear Filters</button>
      </div>
      <table>
        <thead>
          <tr>
            <th>Product</th>
            <th class="delivery-col">Delivery</th>
            <th class="price-col">Price</th>
          </tr>
        </thead>
        <tbody id="product-list">
    ''\<close>

definition render_row :: "listing \<Rightarrow> string" where
  \<open>render_row item =
     ''
        <tr class="product-row" data-delivery-today="'' @ bool_str (isDeliveryToday item) @
     ''" data-delivery-tomorrow="'' @ bool_str (isDeliveryTomorrow item) @ ''">
          <td>'' @
     (if hasCoupon item then ''<span class="coupon-indicator" title="Coupon Available"></span>''
      else []) @
     ''<a href="'' @ template_str (url item) @ ''" target="_blank">'' @
     template_str (title item) @ ''</a></td>
          <td class="delivery-col" style="color: #4CAF50;">'' @
     (if deliveryText item \<noteq> [] then deliveryText item else ''-'') @ ''</td>
          <td class="price-col '' @ (if hasCoupon item then ''coupon-price'' else []) @ ''">
            '' @ price item @ ''
          </td>
        </tr>''\<close>

definition render :: "listing list \<Rightarrow> string" where
  "render ps = html_head @ concat (map render_row ps) @ ''</tbody></table>''"

subsection \<open>The injected function\<close>

definition extract_try :: "document \<Rightarrow> js_error + frame_result" where
  \<comment> \<open>the \<open>try\<close> block; reading \<open>innerHTML\<close> of a \<open>null\<close> body for the log line throws\<close>
  \<open>extract_try d =
     (let url = location_href d; items = find_items d
      in case body_innerHTML d of
           None \<Rightarrow> Inl (TypeError ''Cannot read properties of null (reading \'innerHTML\')'')
         | Some page \<Rightarrow>
             Inr \<lparr>frame_url = url,
                  html = render (Array_sort comparefn (processedItems items))\<rparr>)\<close>

definition extractAmazonResultsWithFrameInfo :: "document \<Rightarrow> frame_result" where
  "extractAmazonResultsWithFrameInfo d =
     (case extract_try d of
        Inr r \<Rightarrow> r
      | Inl err \<Rightarrow>
          \<lparr>frame_url = location_href d, html = ''Error extracting results: '' @ message err\<rparr>)"

section \<open>The extractor when a DOM call throws\<close>

text \<open>
  In the sections above every DOM call gives an answer, and the one failure of the \<open>try\<close>
  block is the read of \<open>innerHTML\<close> from a \<open>null\<close> body. Here each call of
  \<open>querySelectorAll\<close> and \<open>querySelector\<close> gives its answer or throws (\<open>Inl\<close>), and a call of
  the injected function returns a result or raises to its caller. What a call or a \<open>null\<close>
  dereference throws is an error object, which has a message. The property reads
  (\<open>document.location.href\<close>, \<open>innerText\<close>, \<open>textContent\<close>, \<open>href\<close>) do not throw.
\<close>

record dom_item = elem +
  try_querySelector :: "string \<Rightarrow> js_error + elem option"

record dom_document =
  doc_href :: string
  doc_body :: "string option"
  try_querySelectorAll :: "string \<Rightarrow> js_error + dom_item list"

definition answered :: "dom_item \<Rightarrow> item" where
  \<comment> \<open>the container as the sections above see it: each call gives its answer\<close>
  "answered it =
     \<lparr>innerText = innerText it, textContent = textContent it, href = href it,
      querySelector = (\<lambda>s. case try_querySelector it s of Inr a \<Rightarrow> a | Inl e \<Rightarrow> None)\<rparr>"

definition answered_document :: "dom_document \<Rightarrow> document" where
  "answered_document d =
     \<lparr>location_href = doc_href d, body_innerHTML = doc_body d,
      querySelectorAll =
        (\<lambda>s. case try_querySelectorAll d s of Inr items \<Rightarrow> map answered items | Inl e \<Rightarrow> [])\<rparr>"

fun query_or :: "dom_item \<Rightarrow> string list \<Rightarrow> js_error + elem option" where
  \<comment> \<open>\<open>q(s1) || q(s2) || ...\<close>: the calls from the left, up to the first that is not \<open>null\<close>\<close>
  "query_or it [] = Inr None"
| "query_or it (selector # rest) =
     (case try_querySelector it selector of
        Inl e \<Rightarrow> Inl e
      | Inr None \<Rightarrow> query_or it rest
      | Inr (Some x) \<Rightarrow> Inr (Some x))"

definition query_price :: "dom_item \<Rightarrow> js_error + unit" where
  \<comment> \<open>the calls of \<open>priceWhole\<close>: \<open>.a-price\<close> is asked for only when the first operand is falsy\<close>
  "query_price it =
     (case try_querySelector it ''.a-price-whole'' of
        Inl e \<Rightarrow> Inl e
      | Inr w \<Rightarrow>
          (let whole = map_option (\<lambda>t. remove1 CHR ''.'' (trim t)) (Option.bind w innerText)
           in if whole = None \<or> whole = Some [] then
                (case try_querySelector it ''.a-price'' of
                   Inl e \<Rightarrow> Inl e
                 | Inr p \<Rightarrow> Inr ())
              else Inr ()))"

fun query_delivery :: "dom_item \<Rightarrow> string list \<Rightarrow> js_error + unit" where
  \<comment> \<open>the calls of the loop over the delivery selectors, which stops at the first match\<close>
  "query_delivery it [] = Inr ()"
| "query_delivery it (selector # rest) =
     (case try_querySelector it selector of
        Inl e \<Rightarrow> Inl e
      | Inr None \<Rightarrow> query_delivery it rest
      | Inr (Some deliveryElem) \<Rightarrow>
          if textContent deliveryElem \<noteq> [] then
            (let text = toLowerCase (textContent deliveryElem)
             in if js_includes text ''today'' \<or> js_includes text ''same day'' \<or>
                   js_includes text ''within'' \<and> js_includes text ''hour''
                then Inr ()
                else if js_includes text ''tomorrow'' \<or> js_includes text ''next day''
                then Inr ()
                else query_delivery it rest)
          else query_delivery it rest)"

definition loop_body :: "dom_item \<Rightarrow> js_error + listing option" where
  \<comment> \<open>one pass of the loop body: its calls in their order, the first one that throws ending
      it; when none throws, the entry computed from their answers\<close>
  \<open>loop_body it =
     (case query_or it [''h2 a span'', ''.a-text-normal'', ''.a-link-normal span''] of
        Inl e \<Rightarrow> Inl e
      | Inr titleElem \<Rightarrow>
     (case query_or it [''h2 a'', ''.a-link-normal''] of
        Inl e \<Rightarrow> Inl e
      | Inr urlElem \<Rightarrow>
     (case query_price it of
        Inl e \<Rightarrow> Inl e
      | Inr u \<Rightarrow>
     (case try_querySelector it ''.a-price-fraction'' of
        Inl e \<Rightarrow> Inl e
      | Inr fraction \<Rightarrow>
     (case query_delivery it deliverySelectors of
        Inl e \<Rightarrow> Inl e
      | Inr u \<Rightarrow>
     (case query_or it [''.s-coupon-unclipped'', ''[data-csa-c-element-type="coupon"]''] of
        Inl e \<Rightarrow> Inl e
      | Inr couponElem \<Rightarrow> Inr (process_item (answered it))))))))\<close>

fun loop_items :: "dom_item list \<Rightarrow> js_error + listing list" where
  "loop_items [] = Inr []"
| "loop_items (it # items) =
     (case loop_body it of
        Inl e \<Rightarrow> Inl e
      | Inr entry \<Rightarrow>
          (case loop_items items of
             Inl e \<Rightarrow> Inl e
           | Inr ps \<Rightarrow> Inr (case entry of None \<Rightarrow> ps | Some p \<Rightarrow> p # ps)))"

definition find_dom_items :: "dom_document \<Rightarrow> js_error + dom_item list" where
  \<open>find_dom_items d =
     (case try_querySelectorAll d ''[data-component-type="s-search-result"]'' of
        Inl e \<Rightarrow> Inl e
      | Inr items \<Rightarrow>
          if length items = 0 then
            (case try_querySelectorAll d ''.s-result-item'' of
               Inl e \<Rightarrow> Inl e
             | Inr items \<Rightarrow>
                 if length items = 0 then try_querySelectorAll d ''.sg-col-inner''
                 else Inr items)
          else Inr items)\<close>

definition try_block :: "dom_document \<Rightarrow> js_error + frame_result" where
  \<comment> \<open>the containers are looked up, the body is read for the log line, the loop runs\<close>
  \<open>try_block d =
     (case find_dom_items d of
        Inl e \<Rightarrow> Inl e
      | Inr items \<Rightarrow>
          (case doc_body d of
             None \<Rightarrow> Inl (TypeError ''Cannot read properties of null (reading \'innerHTML\')'')
           | Some page \<Rightarrow>
               (case loop_items items of
                  Inl e \<Rightarrow> Inl e
                | Inr ps \<Rightarrow>
                    Inr \<lparr>frame_url = doc_href d, html = render (Array_sort comparefn ps)\<rparr>)))\<close>

definition catch_block :: "dom_document \<Rightarrow> js_error \<Rightarrow> js_error + frame_result" where
  \<comment> \<open>\<open>return { url: document.location.href, html: ... + err.message }\<close>\<close>
  "catch_block d err =
     Inr \<lparr>frame_url = doc_href d, html = ''Error extracting results: '' @ message err\<rparr>"

definition call_extractAmazonResultsWithFrameInfo ::
  "dom_document \<Rightarrow> js_error + frame_result" where
  \<comment> \<open>a call of the function: \<open>Inr\<close> what it returns, \<open>Inl\<close> what it raises to its caller\<close>
  "call_extractAmazonResultsWithFrameInfo d =
     (case try_block d of Inr r \<Rightarrow> Inr r | Inl err \<Rightarrow> catch_block d err)"

definition item_selectors :: "string list" where
  \<open>item_selectors =
     [''h2 a span'', ''.a-text-normal'', ''.a-link-normal span'', ''h2 a'', ''.a-link-normal'',
      ''.a-price-whole'', ''.a-price'', ''.a-price-fraction''] @ deliverySelectors @
     [''.s-coupon-unclipped'', ''[data-csa-c-element-type="coupon"]'']\<close>

definition container_selectors :: "string list" where
  \<open>container_selectors =
     [''[data-component-type="s-search-result"]'', ''.s-result-item'', ''.sg-col-inner'']\<close>

definition item_answers :: "dom_item \<Rightarrow> bool" where
  \<comment> \<open>no \<open>querySelector\<close> call of the loop body throws on this container\<close>
  "item_answers it = list_all (\<lambda>s. \<exists>a. try_querySelector it s = Inr a) item_selectors"

definition calls_answer :: "dom_document \<Rightarrow> bool" where
  \<comment> \<open>no \<open>querySelectorAll\<close> call throws, and no \<open>querySelector\<close> call on a container found\<close>
  "calls_answer d =
     list_all (\<lambda>s. \<exists>items. try_querySelectorAll d s = Inr items \<and> list_all item_answers items)
       container_selectors"

section \<open>The popup\<close>

subsection \<open>Starting the extraction\<close>

record tab =
  tab_id :: nat
  tab_url :: "string option"

text \<open>What the controller does to the world, in order.\<close>

datatype effect =
    SetInnerText string    \<comment> \<open>\<open>resultsDiv.innerText = ...\<close>\<close>
  | SetInnerHTML string    \<comment> \<open>\<open>resultsDiv.innerHTML = ...\<close>\<close>
  | ExecuteScript nat      \<comment> \<open>\<open>chrome.scripting.executeScript\<close> on the tab with this id\<close>
  | SetTimeout nat

definition is_amazon_url :: "string \<Rightarrow> bool" where
  \<comment> \<open>\<open>/^https?:\/\/(www\.)?amazon\./\<close>\<close>
  "is_amazon_url u =
     (let r = drop 4 u;
          r = (if starts_with r ''s'' then drop 1 r else r);
          h = drop 3 r
      in starts_with u ''http'' \<and> starts_with r ''://'' \<and>
         (starts_with h ''www.amazon.'' \<or> starts_with h ''amazon.''))"

definition handleExtract ::
  "bool \<Rightarrow> js_error + tab list \<Rightarrow> (nat \<Rightarrow> js_error option) \<Rightarrow> effect list" where
  \<comment> \<open>\<open>has_results\<close>: the popup has a \<open>#results\<close> element. \<open>query\<close>: what awaiting
      \<open>chrome.tabs.query\<close> gives, a rejection or the array of tabs. \<open>inject\<close>: the error
      \<open>executeScript\<close> throws when called on a tab, if any.\<close>
  "handleExtract has_results query inject =
     (if \<not> has_results then []
      else case query of
        Inl e \<Rightarrow> [SetInnerText (''Exception: '' @ message e)]
      | Inr [] \<Rightarrow> [SetInnerText ''No active tab found.'']
      | Inr (tab # others) \<Rightarrow>
          (case tab_url tab of
             None \<Rightarrow> [SetInnerText ''Tab has no URL.'']
           | Some u \<Rightarrow>
               if u = [] then [SetInnerText ''Tab has no URL.'']
               else if \<not> is_amazon_url u then
                 [SetInnerText ''Please navigate to an Amazon search results page.'']
               else
                 (case inject (tab_id tab) of
                    Some e \<Rightarrow>
                      [ExecuteScript (tab_id tab), SetInnerText (''Exception: '' @ message e)]
                  | None \<Rightarrow> [ExecuteScript (tab_id tab), SetTimeout 1000])))"

fun first_valid :: "frame_result option list \<Rightarrow> string option" where
  \<comment> \<open>the loop over the frames: \<open>Some output\<close> when \<open>found\<close> is set, each frame given
      by its \<open>result\<close> (\<open>None\<close>: \<open>null\<close>)\<close>
  "first_valid [] = None"
| "first_valid (result # frames) =
     (case result of
        None \<Rightarrow> first_valid frames
      | Some r \<Rightarrow>
          if html r \<noteq> [] \<and> html r \<noteq> ''<ul></ul>'' then Some (html r)
          else first_valid frames)"

definition executeScript_callback ::
  "string option \<Rightarrow> frame_result option list option \<Rightarrow> effect" where
  \<comment> \<open>\<open>lastError\<close>: the message of \<open>chrome.runtime.lastError\<close>, if set.
      \<open>results\<close>: \<open>None\<close> when the callback gets \<open>undefined\<close>.\<close>
  "executeScript_callback lastError results =
     (case lastError of
        Some m \<Rightarrow> SetInnerText (''Error: '' @ m)
      | None \<Rightarrow>
          (case results of
             None \<Rightarrow> SetInnerText ''No results found or script failed.''
           | Some frames \<Rightarrow>
               if length frames = 0 then SetInnerText ''No results found or script failed.''
               else (case first_valid frames of
                       Some output \<Rightarrow> SetInnerHTML output
                     | None \<Rightarrow> SetInnerHTML ''No results found.'')))"

subsection \<open>Filtering the rendered rows\<close>

text \<open>
  The popup's document as the filter code reads it. A \<open>classList\<close> is a list of distinct
  tokens. Element ids are taken to be unique, so the target of a click on a control is the
  element \<open>getElementById\<close> finds.
\<close>

record row =
  link_text :: "string option"  \<comment> \<open>\<open>textContent\<close> of the row's first link; \<open>None\<close>: no link\<close>
  data_delivery_today :: "string option"  \<comment> \<open>\<open>getAttribute\<close>; \<open>None\<close>: \<open>null\<close>\<close>
  data_delivery_tomorrow :: "string option"
  row_classList :: "string list"

record popup =
  filter_input :: "string option"  \<comment> \<open>the \<open>value\<close> of \<open>#filter-input\<close>; \<open>None\<close>: no such element\<close>
  today_filter :: "string list option"  \<comment> \<open>the \<open>classList\<close> of \<open>#delivery-today-filter\<close>\<close>
  tomorrow_filter :: "string list option"  \<comment> \<open>the \<open>classList\<close> of \<open>#delivery-tomorrow-filter\<close>\<close>
  rows :: "row list"  \<comment> \<open>the \<open>.product-row\<close> elements in document order\<close>

definition class_contains :: "string list \<Rightarrow> string \<Rightarrow> bool" where
  "class_contains cs c = (c \<in> set cs)"

definition class_add :: "string \<Rightarrow> string list \<Rightarrow> string list" where
  "class_add c cs = (if c \<in> set cs then cs else cs @ [c])"

definition class_remove :: "string \<Rightarrow> string list \<Rightarrow> string list" where
  "class_remove c cs = filter (\<lambda>x. x \<noteq> c) cs"

definition class_toggle :: "string \<Rightarrow> string list \<Rightarrow> string list" where
  "class_toggle c cs = (if c \<in> set cs then class_remove c cs else cs @ [c])"

definition showRow_of :: "string \<Rightarrow> bool \<Rightarrow> bool \<Rightarrow> row \<Rightarrow> bool" where
  \<comment> \<open>the value of \<open>showRow\<close> at the end of the body of \<open>rows.forEach\<close>\<close>
  "showRow_of textFilter deliveryTodayActive deliveryTomorrowActive r =
     (let title = (case link_text r of Some t \<Rightarrow> toLowerCase t | None \<Rightarrow> []);
          isDeliveryToday = (data_delivery_today r = Some ''true'');
          isDeliveryTomorrow = (data_delivery_tomorrow r = Some ''true'');
          showRow = True;
          showRow = (if textFilter \<noteq> [] \<and> \<not> js_includes title textFilter then False
                     else showRow);
          showRow =
            (if deliveryTodayActive \<or> deliveryTomorrowActive then
               (let matchesDeliveryFilter = False;
                    matchesDeliveryFilter =
                      (if deliveryTodayActive \<and> isDeliveryToday then True
                       else matchesDeliveryFilter);
                    matchesDeliveryFilter =
                      (if deliveryTomorrowActive \<and> isDeliveryTomorrow then True
                       else matchesDeliveryFilter)
                in if \<not> matchesDeliveryFilter then False else showRow)
             else showRow)
      in showRow)"

definition applyFilters :: "popup \<Rightarrow> popup" where
  "applyFilters p =
     (let textFilter = (case filter_input p of Some v \<Rightarrow> toLowerCase v | None \<Rightarrow> []);
          deliveryTodayActive =
            (case today_filter p of Some cs \<Rightarrow> class_contains cs ''active'' | None \<Rightarrow> False);
          deliveryTomorrowActive =
            (case tomorrow_filter p of Some cs \<Rightarrow> class_contains cs ''active'' | None \<Rightarrow> False)
      in p\<lparr>rows :=
             map (\<lambda>r. if showRow_of textFilter deliveryTodayActive deliveryTomorrowActive r
                       then r\<lparr>row_classList := class_remove ''hidden'' (row_classList r)\<rparr>
                       else r\<lparr>row_classList := class_add ''hidden'' (row_classList r)\<rparr>)
                 (rows p)\<rparr>)"

definition on_input :: "string \<Rightarrow> popup \<Rightarrow> popup" where
  \<comment> \<open>the \<open>input\<close> listener, by the id of the event's target\<close>
  "on_input target_id p = (if target_id = ''filter-input'' then applyFilters p else p)"

definition on_click :: "string \<Rightarrow> popup \<Rightarrow> popup" where
  \<comment> \<open>the \<open>click\<close> listener, by the id of the event's target\<close>
  "on_click target_id p =
     (let p = (if target_id = ''delivery-today-filter'' then
                 applyFilters (p\<lparr>today_filter := map_option (class_toggle ''active'') (today_filter p)\<rparr>)
               else p);
          p = (if target_id = ''delivery-tomorrow-filter'' then
                 applyFilters
                   (p\<lparr>tomorrow_filter := map_option (class_toggle ''active'') (tomorrow_filter p)\<rparr>)
               else p);
          p = (if target_id = ''clear-filters'' then
                 applyFilters
                   (p\<lparr>filter_input := map_option (\<lambda>v. []) (filter_input p),
                      today_filter := map_option (class_remove ''active'') (today_filter p),
                      tomorrow_filter := map_option (class_remove ''active'') (tomorrow_filter p)\<rparr>)
               else p)
      in p)"

definition is_hidden :: "row \<Rightarrow> bool" where
  "is_hidden r = class_contains (row_classList r) ''hidden''"

section \<open>Example pages\<close>

definition text_elem :: "string \<Rightarrow> elem" where
  "text_elem s = \<lparr>innerText = Some s, textContent = s, href = None\<rparr>"

definition link_elem :: "string \<Rightarrow> string \<Rightarrow> elem" where
  "link_elem s u = \<lparr>innerText = Some s, textContent = s, href = Some u\<rparr>"

definition product :: "string \<Rightarrow> (string \<times> elem) list \<Rightarrow> item" where
  \<comment> \<open>a product container with the given text and the given selector results\<close>
  "product text found =
     \<lparr>innerText = Some text, textContent = text, href = None, querySelector = map_of found\<rparr>"

definition ex_you_pay :: item where
  \<comment> \<open>a $25.00 lamp whose coupon badge reads \<open>Save 10% off. You pay $19.99\<close>\<close>
  "ex_you_pay =
     product ''Lamp $25.00 Save 10% off. You pay $19.99''
       [(''h2 a span'', text_elem ''Lamp''),
        (''h2 a'', link_elem ''Lamp'' ''https://www.amazon.com/dp/B01''),
        (''.a-price-whole'', text_elem ''25.''),
        (''.a-price-fraction'', text_elem ''00''),
        (''.s-coupon-unclipped'', text_elem ''Save 10% off. You pay $19.99'')]"

definition ex_you_pay_entry :: listing where
  "ex_you_pay_entry =
     \<lparr>title = Some ''Lamp'', url = Some ''https://www.amazon.com/dp/B01'', price = ''$19.99'',
      priceNum = Num (1999 / 100), hasCoupon = True, deliveryText = [],
      isDeliveryToday = False, isDeliveryTomorrow = False\<rparr>"

definition ex_pay_more :: item where
  \<comment> \<open>a $25.00 lamp with a coupon badge, whose text says \<open>You pay $30.00\<close>\<close>
  "ex_pay_more =
     product ''Lamp $25.00 Save 5% You pay $30.00 for 2''
       [(''h2 a span'', text_elem ''Lamp''),
        (''h2 a'', link_elem ''Lamp'' ''https://www.amazon.com/dp/B02''),
        (''.a-price-whole'', text_elem ''25.''),
        (''.a-price-fraction'', text_elem ''00''),
        (''.s-coupon-unclipped'', text_elem ''Save 5%'')]"

definition ex_pay_more_entry :: listing where
  "ex_pay_more_entry =
     \<lparr>title = Some ''Lamp'', url = Some ''https://www.amazon.com/dp/B02'', price = ''$30.00'',
      priceNum = Num 30, hasCoupon = True, deliveryText = [],
      isDeliveryToday = False, isDeliveryTomorrow = False\<rparr>"

definition ex_dollar :: item where
  \<comment> \<open>a $10.00 mug with a coupon of $15\<close>
  "ex_dollar =
     product ''Mug $10.00 Save $15''
       [(''h2 a span'', text_elem ''Mug''),
        (''h2 a'', link_elem ''Mug'' ''https://www.amazon.com/dp/B03''),
        (''.a-price-whole'', text_elem ''10.''),
        (''.a-price-fraction'', text_elem ''00''),
        (''.s-coupon-unclipped'', text_elem ''Save $15'')]"

definition ex_dollar_entry :: listing where
  "ex_dollar_entry =
     \<lparr>title = Some ''Mug'', url = Some ''https://www.amazon.com/dp/B03'', price = ''$0.00'',
      priceNum = Num 0, hasCoupon = True, deliveryText = [],
      isDeliveryToday = False, isDeliveryTomorrow = False\<rparr>"

definition ex_percent_150 :: item where
  \<comment> \<open>a $10.00 pen whose coupon badge reads \<open>Save 150%\<close>\<close>
  "ex_percent_150 =
     product ''Pen $10.00 Save 150%''
       [(''h2 a span'', text_elem ''Pen''),
        (''h2 a'', link_elem ''Pen'' ''https://www.amazon.com/dp/B04''),
        (''.a-price-whole'', text_elem ''10.''),
        (''.a-price-fraction'', text_elem ''00''),
        (''.s-coupon-unclipped'', text_elem ''Save 150%'')]"

definition ex_percent_150_entry :: listing where
  "ex_percent_150_entry =
     \<lparr>title = Some ''Pen'', url = Some ''https://www.amazon.com/dp/B04'', price = ''$-5.00'',
      priceNum = Num (- 5), hasCoupon = True, deliveryText = [],
      isDeliveryToday = False, isDeliveryTomorrow = False\<rparr>"

definition ex_title_only :: item where
  \<comment> \<open>a priced container with a title element and no link element\<close>
  "ex_title_only =
     product ''Cup $9.99''
       [(''.a-text-normal'', text_elem ''Cup''),
        (''.a-price-whole'', text_elem ''9.''),
        (''.a-price-fraction'', text_elem ''99'')]"







definition ex_doc_null_body :: document where
  "ex_doc_null_body =
     \<lparr>location_href = ''https://www.amazon.com/s?k=lamp'', body_innerHTML = None,
      querySelectorAll = (\<lambda>selector. [])\<rparr>"

definition ex_doc_empty :: document where
  "ex_doc_empty =
     \<lparr>location_href = ''https://www.amazon.com/s?k=lamp'', body_innerHTML = Some ''<p>No results</p>'',
      querySelectorAll = (\<lambda>selector. [])\<rparr>"

definition ex_tab_elsewhere :: tab where
  "ex_tab_elsewhere = \<lparr>tab_id = 7, tab_url = Some ''https://www.example.com/amazon.com''\<rparr>"

definition ex_row :: "string \<Rightarrow> bool \<Rightarrow> bool \<Rightarrow> string list \<Rightarrow> row" where
  \<comment> \<open>a row as the extractor renders it, with the given classes\<close>
  "ex_row name today tomorrow classes =
     \<lparr>link_text = Some name, data_delivery_today = Some (bool_str today),
      data_delivery_tomorrow = Some (bool_str tomorrow), row_classList = classes\<rparr>"

definition ex_popup :: popup where
  \<comment> \<open>both toggles active, no text filter; a Today row, a Tomorrow row, an uncategorized row\<close>
  "ex_popup =
     \<lparr>filter_input = Some [],
      today_filter = Some [''delivery-filter'', ''active''],
      tomorrow_filter = Some [''delivery-filter'', ''active''],
      rows = [ex_row ''Lamp'' True False [''product-row''],
              ex_row ''Mug'' False True [''product-row'', ''hidden''],
              ex_row ''Pen'' False False [''product-row'']]\<rparr>"

definition ex_dom_null_body :: dom_document where
  "ex_dom_null_body =
     \<lparr>doc_href = ''https://www.amazon.com/s?k=lamp'', doc_body = None,
      try_querySelectorAll = (\<lambda>selector. Inr [])\<rparr>"

definition ex_dom_empty :: dom_document where
  "ex_dom_empty =
     \<lparr>doc_href = ''https://www.amazon.com/s?k=lamp'', doc_body = Some ''<p>No results</p>'',
      try_querySelectorAll = (\<lambda>selector. Inr [])\<rparr>"

definition ex_dom_throwing :: dom_document where
  \<comment> \<open>one product container, whose \<open>querySelector\<close> throws\<close>
  "ex_dom_throwing =
     \<lparr>doc_href = ''https://www.amazon.com/s?k=lamp'', doc_body = Some ''<div>Lamp</div>'',
      try_querySelectorAll =
        (\<lambda>selector.
           Inr [\<lparr>innerText = Some ''Lamp'', textContent = ''Lamp'', href = None,
                 try_querySelector = (\<lambda>s. Inl (TypeError ''Illegal invocation''))\<rparr>])\<rparr>"

definition ex_you_pay_comma :: item where
  \<comment> \<open>a $1,499.00 laptop whose coupon badge reads \<open>Save 10% You pay $1,349.10\<close>\<close>
  "ex_you_pay_comma =
     product ''Laptop $1,499.00 Save 10% You pay $1,349.10''
       [(''h2 a span'', text_elem ''Laptop''),
        (''h2 a'', link_elem ''Laptop'' ''https://www.amazon.com/dp/B08''),
        (''.a-price-whole'', text_elem ''1,499.''),
        (''.a-price-fraction'', text_elem ''00''),
        (''.s-coupon-unclipped'', text_elem ''Save 10% You pay $1,349.10'')]"

definition ex_you_pay_comma_entry :: listing where
  "ex_you_pay_comma_entry =
     \<lparr>title = Some ''Laptop'', url = Some ''https://www.amazon.com/dp/B08'', price = ''$1.00'',
      priceNum = Num 1, hasCoupon = True, deliveryText = [],
      isDeliveryToday = False, isDeliveryTomorrow = False\<rparr>"

section \<open>The properties in the words of the specification\<close>



definition tab_rejected :: "tab list \<Rightarrow> bool" where
  \<comment> \<open>the tab is missing, has no URL, or has a URL that does not match the pattern\<close>
  "tab_rejected tabs =
     (case tabs of
        [] \<Rightarrow> True
      | tab # others \<Rightarrow> (case tab_url tab of None \<Rightarrow> True | Some u \<Rightarrow> \<not> is_amazon_url u))"

definition rejection_message :: "tab list \<Rightarrow> string" where
  "rejection_message tabs =
     (case tabs of
        [] \<Rightarrow> ''No active tab found.''
      | tab # others \<Rightarrow>
          (case tab_url tab of
             None \<Rightarrow> ''Tab has no URL.''
           | Some u \<Rightarrow>
               if u = [] then ''Tab has no URL.''
               else ''Please navigate to an Amazon search results page.''))"

definition filter_text :: "popup \<Rightarrow> string" where
  \<comment> \<open>the text filter: what the input holds, empty when there is no input element\<close>
  "filter_text p = (case filter_input p of Some v \<Rightarrow> v | None \<Rightarrow> [])"

definition today_active :: "popup \<Rightarrow> bool" where
  "today_active p =
     (case today_filter p of Some cs \<Rightarrow> class_contains cs ''active'' | None \<Rightarrow> False)"

definition tomorrow_active :: "popup \<Rightarrow> bool" where
  "tomorrow_active p =
     (case tomorrow_filter p of Some cs \<Rightarrow> class_contains cs ''active'' | None \<Rightarrow> False)"

definition text_passes :: "string \<Rightarrow> row \<Rightarrow> bool" where
  \<comment> \<open>the text filter is empty or a case-insensitive substring of the row's link text\<close>
  "text_passes f r =
     (f = [] \<or>
      js_includes (toLowerCase (case link_text r of Some t \<Rightarrow> t | None \<Rightarrow> [])) (toLowerCase f))"

definition delivery_passes :: "bool \<Rightarrow> bool \<Rightarrow> row \<Rightarrow> bool" where
  \<comment> \<open>no toggle is active, or the row matches at least one active toggle\<close>
  "delivery_passes today tomorrow r =
     ((\<not> today \<and> \<not> tomorrow) \<or>
      (today \<and> data_delivery_today r = Some ''true'') \<or>
      (tomorrow \<and> data_delivery_tomorrow r = Some ''true''))"

definition row_content :: "row \<Rightarrow> string option \<times> string option \<times> string option \<times> string list" where
  \<comment> \<open>a row without its \<open>hidden\<close> class\<close>
  "row_content r =
     (link_text r, data_delivery_today r, data_delivery_tomorrow r,
      filter (\<lambda>c. c \<noteq> ''hidden'') (row_classList r))"

definition visible_rows :: "popup \<Rightarrow> row list" where
  "visible_rows p = filter (\<lambda>r. \<not> is_hidden r) (rows p)"

section \<open>Properties of the extractor\<close>

subsection \<open>Strings\<close>

lemma starts_with_iff: "starts_with s p = (\<exists>b. s = p @ b)"
proof
  assume "starts_with s p"
  then have "p = take (length p) s" by (simp add: starts_with_def)
  then have "s = p @ drop (length p) s" by (metis append_take_drop_id)
  then show "\<exists>b. s = p @ b" ..
next
  assume "\<exists>b. s = p @ b"
  then show "starts_with s p" by (auto simp: starts_with_def)
qed

lemma js_includes_iff: "js_includes s p = (\<exists>a b. s = a @ p @ b)"
proof (induction s)
  case Nil
  show ?case by auto
next
  case (Cons c cs)
  show ?case
  proof
    assume "js_includes (c # cs) p"
    then consider "starts_with (c # cs) p" | "js_includes cs p" by auto
    then show "\<exists>a b. c # cs = a @ p @ b"
    proof cases
      case 1
      then obtain b where "c # cs = [] @ p @ b" by (auto simp: starts_with_iff)
      then show ?thesis by blast
    next
      case 2
      with Cons obtain a b where "cs = a @ p @ b" by blast
      then have "c # cs = (c # a) @ p @ b" by simp
      then show ?thesis by blast
    qed
  next
    assume "\<exists>a b. c # cs = a @ p @ b"
    then obtain a b where ab: "c # cs = a @ p @ b" by blast
    show "js_includes (c # cs) p"
    proof (cases a)
      case Nil
      with ab have "starts_with (c # cs) p" by (auto simp: starts_with_iff)
      then show ?thesis by simp
    next
      case (Cons x a')
      with ab have "cs = a' @ p @ b" by simp
      with Cons.IH have "js_includes cs p" by blast
      then show ?thesis by simp
    qed
  qed
qed

lemma starts_with_drop:
  assumes "starts_with s p" and "length p = n"
  shows "s = p @ drop n s"
proof -
  from assms have "p = take n s" by (auto simp: starts_with_def)
  then show ?thesis by simp
qed

lemma starts_with_append: "starts_with (p @ rest) p"
  by (simp add: starts_with_def)

subsection \<open>Matches and the numbers read from them\<close>

lemma first_match_SomeD: "first_match m s = Some g \<Longrightarrow> \<exists>t. m t = Some g"
  by (induction s) (auto split: option.splits)

lemma digit_not_space: "is_digit c \<Longrightarrow> \<not> is_space c"
  by (auto simp: is_digit_def is_space_def)

lemma digit_not_sign:
  "is_digit c \<Longrightarrow> c \<noteq> CHR ''-'' \<and> c \<noteq> CHR ''+'' \<and> c \<noteq> CHR ''I''"
  by (auto simp: is_digit_def)

lemma scale10_nonneg: "0 \<le> m \<Longrightarrow> 0 \<le> scale10 m e"
  by (simp add: scale10_def)

lemma read_decimal_digit:
  assumes "is_digit c"
  shows "\<exists>q. read_decimal (c # cs) = Some q \<and> 0 \<le> q"
  using assms by (auto simp: read_decimal_def Let_def intro!: scale10_nonneg)

lemma parseFloat_digit:
  assumes "is_digit c"
  shows "\<exists>q. parseFloat (c # cs) = Num q \<and> 0 \<le> q"
proof -
  from read_decimal_digit [OF assms] obtain q
    where q: "read_decimal (c # cs) = Some q" "0 \<le> q"
    by blast
  have "read_sign (dropWhile is_space (c # cs)) = (False, c # cs)"
    using assms digit_not_space [OF assms] digit_not_sign [OF assms]
    by (simp add: read_sign_def)
  moreover have "\<not> starts_with (c # cs) ''Infinity''"
    using digit_not_sign [OF assms] by (auto simp: starts_with_def)
  ultimately show ?thesis using q by (simp add: parseFloat_def)
qed

lemma parseInt_digits:
  assumes "is_digit c"
  shows "parseInt (c # cs) = Num (of_nat (digits_val (takeWhile is_digit (c # cs))))"
proof -
  have "read_sign (dropWhile is_space (c # cs)) = (False, c # cs)"
    using assms digit_not_space [OF assms] digit_not_sign [OF assms]
    by (simp add: read_sign_def)
  then show ?thesis using assms by (simp add: parseInt_def)
qed

lemma takeWhile_nonempty:
  "takeWhile P xs \<noteq> [] \<Longrightarrow> \<exists>c cs. takeWhile P xs = c # cs \<and> P c"
  by (cases xs) (auto split: if_splits)

lemma percent_at_digit:
  assumes "percent_at t = Some g"
  shows "\<exists>c cs. g = c # cs \<and> is_digit c \<and> takeWhile is_digit g = g"
proof -
  from assms have g: "g = takeWhile is_digit t" "takeWhile is_digit t \<noteq> []"
    by (auto simp: percent_at_def Let_def split: if_splits)
  from takeWhile_nonempty [OF g(2)] g(1) show ?thesis by auto
qed

lemma dollar_at_digit:
  assumes "dollar_at t = Some g"
  shows "\<exists>c cs. g = c # cs \<and> is_digit c"
proof -
  let ?ip = "takeWhile is_digit (drop 1 t)"
  from assms have "?ip \<noteq> []" and "\<exists>r. g = ?ip @ r"
    by (auto simp: dollar_at_def Let_def split: if_splits)
  with takeWhile_nonempty [of is_digit "drop 1 t"] show ?thesis by auto
qed

lemma you_pay_at_digit:
  assumes "you_pay_at t = Some g"
  shows "\<exists>c cs. g = c # cs \<and> is_digit c"
proof -
  let ?ip = "takeWhile is_digit (drop 9 t)"
  from assms have "?ip \<noteq> []" and "\<exists>r. g = ?ip @ r"
    by (auto simp: you_pay_at_def Let_def split: if_splits)
  with takeWhile_nonempty [of is_digit "drop 9 t"] show ?thesis by auto
qed

lemma you_pay_parse:
  assumes "first_match you_pay_at s = Some g"
  shows "\<exists>q. parseFloat g = Num q \<and> 0 \<le> q"
proof -
  from first_match_SomeD [OF assms] obtain t where "you_pay_at t = Some g" by blast
  from you_pay_at_digit [OF this] obtain c cs where "g = c # cs" "is_digit c" by blast
  then show ?thesis using parseFloat_digit by blast
qed

lemma dollar_parse:
  assumes "first_match dollar_at s = Some g"
  shows "\<exists>q. parseFloat g = Num q \<and> 0 \<le> q"
proof -
  from first_match_SomeD [OF assms] obtain t where "dollar_at t = Some g" by blast
  from dollar_at_digit [OF this] obtain c cs where "g = c # cs" "is_digit c" by blast
  then show ?thesis using parseFloat_digit by blast
qed

lemma percent_parse:
  assumes "first_match percent_at s = Some g"
  shows "parseInt g = Num (of_nat (digits_val g))"
proof -
  from first_match_SomeD [OF assms] obtain t where "percent_at t = Some g" by blast
  from percent_at_digit [OF this] obtain c cs
    where g: "g = c # cs" "is_digit c" "takeWhile is_digit g = g" by blast
  from parseInt_digits [OF g(2), of cs] g(1,3) show ?thesis by simp
qed

subsection \<open>The coupon block\<close>

lemma process_item_fields:
  assumes "process_item it = Some p"
  shows "priceNum p = snd (finalPrice_of it)" and "price p = fst (finalPrice_of it)"
    and "hasCoupon p = (couponElem_of it \<noteq> None)"
  using assms by (auto simp: process_item_def split: prod.splits option.splits)

lemma finalPrice_of_coupon:
  assumes "couponElem_of it = Some ce" and "js_greater (priceNum_of it) (Num 0)"
  shows "finalPrice_of it =
     (case first_match you_pay_at (textContent it) of
        Some g \<Rightarrow> (''$'' @ toFixed2 (parseFloat g), parseFloat g)
      | None \<Rightarrow>
          (case first_match percent_at (textContent ce) of
             Some g \<Rightarrow>
               (''$'' @ toFixed2 (js_sub (priceNum_of it)
                          (js_mul (priceNum_of it) (js_div (parseInt g) (Num 100)))),
                js_sub (priceNum_of it) (js_mul (priceNum_of it) (js_div (parseInt g) (Num 100))))
           | None \<Rightarrow>
               (case first_match dollar_at (textContent ce) of
                  Some g \<Rightarrow>
                    (''$'' @ toFixed2 (Math_max (Num 0) (js_sub (priceNum_of it) (parseFloat g))),
                     Math_max (Num 0) (js_sub (priceNum_of it) (parseFloat g)))
                | None \<Rightarrow> (priceStr_of it, priceNum_of it))))"
  using assms by (simp add: finalPrice_of_def Let_def split: option.splits)

lemma ex_you_pay_eval: "process_item ex_you_pay = Some ex_you_pay_entry"
  by code_simp

lemma ex_pay_more_eval: "process_item ex_pay_more = Some ex_pay_more_entry"
  by code_simp

lemma ex_dollar_eval: "process_item ex_dollar = Some ex_dollar_entry"
  by code_simp

lemma ex_percent_150_eval: "process_item ex_percent_150 = Some ex_percent_150_entry"
  by code_simp

text \<open>
  C1 (as amended). For every extracted entry that has a coupon indicator and a positive
  finite base price: when the item's text has no match of the \<open>You pay $X\<close> pattern, the
  effective price is at most the base price; and when the coupon is a dollar-amount coupon
  (the coupon text has no percentage match and has a dollar match), the effective price is
  at least 0.
\<close>

theorem coupon_price_bounds:
  assumes "process_item it = Some p"
    and "couponElem_of it = Some couponElem"
    and "priceNum_of it = Num b" and "0 < b"
  shows "(first_match you_pay_at (textContent it) = None \<longrightarrow> js_le (priceNum p) (Num b)) \<and>
         (first_match percent_at (textContent couponElem) = None \<and>
          first_match dollar_at (textContent couponElem) \<noteq> None \<longrightarrow>
            js_le (Num 0) (priceNum p))"
proof -
  have gt: "js_greater (priceNum_of it) (Num 0)"
    using assms(3,4) by (simp add: js_greater_def)
  note fp = finalPrice_of_coupon [OF assms(2) gt]
  have pn: "priceNum p = snd (finalPrice_of it)"
    using process_item_fields(1) [OF assms(1)] .
  have part1: "js_le (priceNum p) (Num b)"
    if np: "first_match you_pay_at (textContent it) = None"
  proof (cases "first_match percent_at (textContent couponElem)")
    case (Some g)
    from percent_parse [OF Some] have "parseInt g = Num (of_nat (digits_val g))" .
    moreover have "0 \<le> b * rat_of_nat (digits_val g)"
      using assms(4) by simp
    ultimately show ?thesis using Some np fp pn assms(3,4)
      by (simp add: js_le_def not_less)
  next
    case None
    show ?thesis
    proof (cases "first_match dollar_at (textContent couponElem)")
      case (Some g)
      from dollar_parse [OF Some] obtain q where "parseFloat g = Num q" "0 \<le> q" by blast
      with Some None np fp pn assms(3,4) show ?thesis
        by (simp add: js_le_def Math_max_def)
    next
      case None2: None
      with None np fp pn assms(3) show ?thesis by (simp add: js_le_def)
    qed
  qed
  have part2: "js_le (Num 0) (priceNum p)"
    if "first_match percent_at (textContent couponElem) = None"
      and d: "first_match dollar_at (textContent couponElem) \<noteq> None"
  proof -
    from d obtain g where g: "first_match dollar_at (textContent couponElem) = Some g" by auto
    from dollar_parse [OF g] obtain q where q: "parseFloat g = Num q" "0 \<le> q" by blast
    show ?thesis
    proof (cases "first_match you_pay_at (textContent it)")
      case None
      with g q that(1) fp pn assms(3,4) show ?thesis
        by (simp add: js_le_def Math_max_def)
    next
      case (Some y)
      from you_pay_parse [OF Some] obtain x where "parseFloat y = Num x" "0 \<le> x" by blast
      with Some fp pn show ?thesis by (simp add: js_le_def)
    qed
  qed
  from part1 part2 show ?thesis by blast
qed

text \<open>
  The amended C1 at a $10.00 mug with a coupon of $15: the effective price is 0, floored,
  between 0 and the base price.
\<close>

theorem coupon_price_bounds_witness:
  "process_item ex_dollar = Some ex_dollar_entry \<and>
   couponElem_of ex_dollar = Some (text_elem ''Save $15'') \<and>
   priceNum_of ex_dollar = Num 10 \<and>
   first_match you_pay_at (textContent ex_dollar) = None \<and>
   first_match percent_at (textContent (text_elem ''Save $15'')) = None \<and>
   first_match dollar_at (textContent (text_elem ''Save $15'')) = Some ''15'' \<and>
   priceNum ex_dollar_entry = Num 0 \<and>
   js_le (priceNum ex_dollar_entry) (Num 10) \<and> js_le (Num 0) (priceNum ex_dollar_entry)"
proof -
  have h2: "couponElem_of ex_dollar = Some (text_elem ''Save $15'')" by code_simp
  have h3: "priceNum_of ex_dollar = Num 10" by code_simp
  have h4: "(0::rat) < 10" by simp
  have n1: "first_match you_pay_at (textContent ex_dollar) = None" by code_simp
  have n2: "first_match percent_at (textContent (text_elem ''Save $15'')) = None" by code_simp
  have n3: "first_match dollar_at (textContent (text_elem ''Save $15'')) = Some ''15''"
    by code_simp
  have v: "priceNum ex_dollar_entry = Num 0" by (simp add: ex_dollar_entry_def)
  from coupon_price_bounds [OF ex_dollar_eval h2 h3 h4] n1 n2 n3
  have "js_le (priceNum ex_dollar_entry) (Num 10) \<and> js_le (Num 0) (priceNum ex_dollar_entry)"
    by simp
  with ex_dollar_eval h2 h3 n1 n2 n3 v show ?thesis by simp
qed

text \<open>
  C1 as stated fails: a $25.00 lamp with a coupon indicator whose text says
  \<open>You pay $30.00\<close> gets the effective price 30, above its base price of 25.
\<close>

theorem coupon_price_counterexample:
  "process_item ex_pay_more = Some ex_pay_more_entry \<and>
   hasCoupon ex_pay_more_entry \<and>
   priceNum_of ex_pay_more = Num 25 \<and>
   priceNum ex_pay_more_entry = Num 30 \<and>
   \<not> js_le (priceNum ex_pay_more_entry) (priceNum_of ex_pay_more)"
proof -
  have b: "priceNum_of ex_pay_more = Num 25" by code_simp
  have "priceNum ex_pay_more_entry = Num 30" "hasCoupon ex_pay_more_entry"
    by (simp_all add: ex_pay_more_entry_def)
  with b ex_pay_more_eval show ?thesis by (simp add: js_le_def)
qed

text \<open>
  The order of the branches of the coupon block, for an item with a coupon indicator and a
  positive base price: a match of the \<open>You pay $X\<close> pattern in the item's text decides,
  whatever the coupon text says; the percentage match of the coupon text decides only when
  there is no such match, and the dollar match only when there is no percentage match
  either.
\<close>

lemma coupon_branch_order:
  assumes "process_item it = Some p"
    and "couponElem_of it = Some couponElem"
    and "js_greater (priceNum_of it) (Num 0)"
  shows "(\<forall>x. first_match you_pay_at (textContent it) = Some x \<longrightarrow>
            priceNum p = parseFloat x) \<and>
         (first_match you_pay_at (textContent it) = None \<longrightarrow>
            (\<forall>n. first_match percent_at (textContent couponElem) = Some n \<longrightarrow>
               priceNum p =
                 js_sub (priceNum_of it)
                   (js_mul (priceNum_of it) (js_div (parseInt n) (Num 100)))) \<and>
            (first_match percent_at (textContent couponElem) = None \<longrightarrow>
               (\<forall>n. first_match dollar_at (textContent couponElem) = Some n \<longrightarrow>
                  priceNum p = Math_max (Num 0) (js_sub (priceNum_of it) (parseFloat n))) \<and>
               (first_match dollar_at (textContent couponElem) = None \<longrightarrow>
                  priceNum p = priceNum_of it)))"
proof -
  note fp = finalPrice_of_coupon [OF assms(2,3)]
  have pn: "priceNum p = snd (finalPrice_of it)"
    using process_item_fields(1) [OF assms(1)] .
  show ?thesis unfolding pn fp by simp
qed

text \<open>
  Coupon text with both \<open>10% off\<close> and \<open>You pay $19.99\<close> on a $25 base gives the effective
  price 19.99 (not 22.50) and the display price \<open>$19.99\<close>.
\<close>

lemma coupon_branch_order_example:
  "process_item ex_you_pay = Some ex_you_pay_entry \<and>
   couponElem_of ex_you_pay = Some (text_elem ''Save 10% off. You pay $19.99'') \<and>
   priceNum_of ex_you_pay = Num 25 \<and>
   first_match percent_at ''Save 10% off. You pay $19.99'' = Some ''10'' \<and>
   first_match you_pay_at (textContent ex_you_pay) = Some ''19.99'' \<and>
   priceNum ex_you_pay_entry = Num (1999 / 100) \<and>
   price ex_you_pay_entry = ''$19.99''"
proof -
  have h2: "couponElem_of ex_you_pay = Some (text_elem ''Save 10% off. You pay $19.99'')"
    by code_simp
  have h3: "priceNum_of ex_you_pay = Num 25" by code_simp
  have m: "first_match you_pay_at (textContent ex_you_pay) = Some ''19.99''" by code_simp
  have pc: "first_match percent_at ''Save 10% off. You pay $19.99'' = Some ''10''" by code_simp
  have v: "priceNum ex_you_pay_entry = Num (1999 / 100)" "price ex_you_pay_entry = ''$19.99''"
    by (simp_all add: ex_you_pay_entry_def)
  from ex_you_pay_eval h2 h3 m pc v show ?thesis by simp
qed

lemma ex_you_pay_comma_base: "priceNum_of ex_you_pay_comma = Num 1499"
  by (simp add: priceNum_of_def priceStr_of_def priceWhole_of_def priceFraction_of_def
      ex_you_pay_comma_def product_def text_elem_def link_elem_def str_or_def str_or_empty_def
      trim_def is_space_def parseFloat_def read_sign_def read_decimal_def starts_with_def
      is_digit_def digits_val_def digit_val_def read_exponent_def scale10_def Let_def)

text \<open>
  C2. The claim fails on the code where the price of the phrase has a thousands separator.
  A $1,499.00 laptop has a coupon indicator, and its text says \<open>You pay $1,349.10\<close>: the
  digits of the pattern stop at the comma, the match is \<open>1\<close>, and the entry gets the
  effective price 1 and the display price \<open>$1.00\<close>, not 1349.10. (The base price is read
  with its commas removed.)
\<close>

theorem you_pay_with_thousands_separator:
  "process_item ex_you_pay_comma = Some ex_you_pay_comma_entry \<and>
   hasCoupon ex_you_pay_comma_entry \<and>
   priceNum_of ex_you_pay_comma = Num 1499 \<and>
   js_includes (textContent ex_you_pay_comma) ''You pay $1,349.10'' \<and>
   first_match you_pay_at (textContent ex_you_pay_comma) = Some ''1'' \<and>
   priceNum ex_you_pay_comma_entry = Num 1 \<and>
   price ex_you_pay_comma_entry = ''$1.00'' \<and>
   priceNum ex_you_pay_comma_entry \<noteq> Num (13491 / 10)"
proof -
  note b = ex_you_pay_comma_base
  have c: "couponElem_of ex_you_pay_comma = Some (text_elem ''Save 10% You pay $1,349.10'')"
    by code_simp
  have m: "first_match you_pay_at (textContent ex_you_pay_comma) = Some ''1''" by code_simp
  have g: "js_greater (priceNum_of ex_you_pay_comma) (Num 0)"
    by (simp add: b js_greater_def)
  have x: "parseFloat ''1'' = Num 1" by code_simp
  have s: "toFixed2 (Num 1) = ''1.00''" by code_simp
  have f: "finalPrice_of ex_you_pay_comma = (''$1.00'', Num 1)"
    by (simp add: finalPrice_of_coupon [OF c g] m x s)
  have d: "delivery_of ex_you_pay_comma = ([], False, False)" by code_simp
  have t: "titleElem_of ex_you_pay_comma = Some (text_elem ''Laptop'')" by code_simp
  have u: "urlElem_of ex_you_pay_comma =
      Some (link_elem ''Laptop'' ''https://www.amazon.com/dp/B08'')"
    by code_simp
  have e: "process_item ex_you_pay_comma = Some ex_you_pay_comma_entry"
    by (simp add: process_item_def f d t u c ex_you_pay_comma_entry_def text_elem_def
        link_elem_def)
  have i: "js_includes (textContent ex_you_pay_comma) ''You pay $1,349.10''" by code_simp
  have v: "priceNum ex_you_pay_comma_entry = Num 1" "price ex_you_pay_comma_entry = ''$1.00''"
    "hasCoupon ex_you_pay_comma_entry"
    by (simp_all add: ex_you_pay_comma_entry_def)
  from e b i m v show ?thesis by simp
qed

text \<open>
  C10. The percentage branch has no floor at 0: for every item with a coupon indicator, a
  positive finite base price, no match of the \<open>You pay\<close> pattern and a matched percentage
  text \<open>N\<close> above 100, the effective price is the base price less \<open>N\<close> percent of it, which
  is strictly negative. The witness below is such an input.
\<close>

theorem percent_above_100_is_negative:
  assumes "process_item it = Some p"
    and "couponElem_of it = Some couponElem"
    and "priceNum_of it = Num b" and "0 < b"
    and "first_match you_pay_at (textContent it) = None"
    and "first_match percent_at (textContent couponElem) = Some g"
    and "parseInt g = Num n" and "100 < n"
  shows "priceNum p = Num (b - b * (n / 100)) \<and> js_less (priceNum p) (Num 0)"
proof -
  have gt: "js_greater (priceNum_of it) (Num 0)"
    using assms(3,4) by (simp add: js_greater_def)
  have pn: "priceNum p = snd (finalPrice_of it)"
    using process_item_fields(1) [OF assms(1)] .
  have v: "priceNum p = Num (b - b * (n / 100))"
    unfolding pn finalPrice_of_coupon [OF assms(2) gt] using assms(3,5,6,7) by simp
  have "b * 1 < b * (n / 100)"
    using assms(4,8) by (intro mult_strict_left_mono) simp_all
  then have "b - b * (n / 100) < 0" by simp
  with v show ?thesis by simp
qed

text \<open>C10 at a $10.00 pen whose coupon reads \<open>Save 150%\<close>: the effective price is -5.\<close>

theorem percent_above_100_is_negative_witness:
  "process_item ex_percent_150 = Some ex_percent_150_entry \<and>
   couponElem_of ex_percent_150 = Some (text_elem ''Save 150%'') \<and>
   priceNum_of ex_percent_150 = Num 10 \<and>
   first_match you_pay_at (textContent ex_percent_150) = None \<and>
   first_match percent_at (textContent (text_elem ''Save 150%'')) = Some ''150'' \<and>
   parseInt ''150'' = Num 150 \<and>
   priceNum ex_percent_150_entry = Num (- 5) \<and>
   js_less (priceNum ex_percent_150_entry) (Num 0)"
proof -
  have h2: "couponElem_of ex_percent_150 = Some (text_elem ''Save 150%'')" by code_simp
  have h3: "priceNum_of ex_percent_150 = Num 10" by code_simp
  have h4: "(0::rat) < 10" by simp
  have h5: "first_match you_pay_at (textContent ex_percent_150) = None" by code_simp
  have h6: "first_match percent_at (textContent (text_elem ''Save 150%'')) = Some ''150''"
    by code_simp
  have h7: "parseInt ''150'' = Num 150" by code_simp
  have h8: "(100::rat) < 150" by simp
  from percent_above_100_is_negative [OF ex_percent_150_eval h2 h3 h4 h5 h6 h7 h8]
  have "priceNum ex_percent_150_entry = Num (- 5) \<and>
        js_less (priceNum ex_percent_150_entry) (Num 0)"
    by simp
  with ex_percent_150_eval h2 h3 h5 h6 h7 show ?thesis by simp
qed

subsection \<open>Which items are kept\<close>

lemma process_item_None_iff:
  "(process_item it = None) = (titleElem_of it = None \<or> urlElem_of it = None)"
  by (simp add: process_item_def split: prod.splits option.splits)

lemma processedItems_eq:
  "processedItems items =
     map (\<lambda>it. the (process_item it))
       (filter (\<lambda>it. titleElem_of it \<noteq> None \<and> urlElem_of it \<noteq> None) items)"
proof (induction items)
  case Nil
  show ?case by simp
next
  case (Cons a items)
  show ?case
  proof (cases "process_item a")
    case None
    then have "titleElem_of a = None \<or> urlElem_of a = None"
      by (simp add: process_item_None_iff)
    with None Cons show ?thesis by auto
  next
    case (Some p)
    then have "\<not> (titleElem_of a = None \<or> urlElem_of a = None)"
      using process_item_None_iff [of a] by simp
    with Some Cons show ?thesis by simp
  qed
qed

text \<open>
  C9. An item yields an entry if and only if one of the three title selectors and one of
  the two link selectors resolve, whatever its price, coupon and delivery data are; the
  entries collected are those of exactly these items, in page order, so an item that
  misses either element is dropped.
\<close>

theorem item_kept_iff_title_and_link:
  "(process_item it \<noteq> None) =
     ((querySelector it ''h2 a span'' \<noteq> None \<or> querySelector it ''.a-text-normal'' \<noteq> None \<or>
       querySelector it ''.a-link-normal span'' \<noteq> None) \<and>
      (querySelector it ''h2 a'' \<noteq> None \<or> querySelector it ''.a-link-normal'' \<noteq> None)) \<and>
   processedItems items =
     map (\<lambda>it. the (process_item it))
       (filter (\<lambda>it. titleElem_of it \<noteq> None \<and> urlElem_of it \<noteq> None) items)"
proof -
  have "(process_item it \<noteq> None) = (titleElem_of it \<noteq> None \<and> urlElem_of it \<noteq> None)"
    using process_item_None_iff [of it] by simp
  also have "\<dots> =
     ((querySelector it ''h2 a span'' \<noteq> None \<or> querySelector it ''.a-text-normal'' \<noteq> None \<or>
       querySelector it ''.a-link-normal span'' \<noteq> None) \<and>
      (querySelector it ''h2 a'' \<noteq> None \<or> querySelector it ''.a-link-normal'' \<noteq> None))"
    by (auto simp: titleElem_of_def urlElem_of_def js_or_def split: option.splits)
  finally show ?thesis using processedItems_eq by simp
qed

text \<open>
  C9 at a priced container that has a title element and no link element, followed by a
  complete one: the first is dropped, the second is kept.
\<close>

theorem item_kept_iff_title_and_link_witness:
  "querySelector ex_title_only ''.a-text-normal'' \<noteq> None \<and>
   querySelector ex_title_only ''h2 a'' = None \<and>
   querySelector ex_title_only ''.a-link-normal'' = None \<and>
   process_item ex_title_only = None \<and>
   processedItems [ex_title_only, ex_dollar] = [ex_dollar_entry]"
proof -
  have q: "querySelector ex_title_only ''.a-text-normal'' \<noteq> None"
    "querySelector ex_title_only ''h2 a'' = None"
    "querySelector ex_title_only ''.a-link-normal'' = None"
    by (simp_all add: ex_title_only_def product_def)
  have d: "titleElem_of ex_dollar \<noteq> None \<and> urlElem_of ex_dollar \<noteq> None"
    using process_item_None_iff [of ex_dollar] ex_dollar_eval by simp
  have t: "urlElem_of ex_title_only = None"
    using q by (simp add: urlElem_of_def js_or_def)
  note kept = item_kept_iff_title_and_link [of ex_title_only "[ex_title_only, ex_dollar]"]
  have a: "process_item ex_title_only = None"
    using kept q by simp
  have b: "processedItems [ex_title_only, ex_dollar] = [the (process_item ex_dollar)]"
    using kept d t by (simp del: processedItems.simps)
  from a b q ex_dollar_eval show ?thesis by (simp del: processedItems.simps)
qed

subsection \<open>The order of the rows\<close>


lemma js_le_total:
  "a \<noteq> NaN \<Longrightarrow> b \<noteq> NaN \<Longrightarrow> \<not> js_le a b \<Longrightarrow> js_le b a"
  by (cases a; cases b) (auto simp: js_le_def)
















subsection \<open>What the extractor returns\<close>

lemma html_head_newline: "\<exists>r. html_head = CHR 0x0A # r"
  unfolding html_head_def by simp

lemma extract_null_body:
  assumes "body_innerHTML d = None"
  shows \<open>extractAmazonResultsWithFrameInfo d =
     \<lparr>frame_url = location_href d,
      html = ''Error extracting results: Cannot read properties of null (reading \'innerHTML\')''\<rparr>\<close>
  using assms by (simp add: extractAmazonResultsWithFrameInfo_def extract_try_def)

lemma extract_with_body:
  assumes "body_innerHTML d = Some page"
  shows "extractAmazonResultsWithFrameInfo d =
     \<lparr>frame_url = location_href d,
      html = render (Array_sort comparefn (processedItems (find_items d)))\<rparr>"
  using assms by (simp add: extractAmazonResultsWithFrameInfo_def extract_try_def)

lemma html_valid:
  "html (extractAmazonResultsWithFrameInfo d) \<noteq> [] \<and>
   html (extractAmazonResultsWithFrameInfo d) \<noteq> ''<ul></ul>''"
proof (cases "body_innerHTML d")
  case None
  from extract_null_body [OF None] show ?thesis by simp
next
  case (Some page)
  from html_head_newline obtain r where "html_head = CHR 0x0A # r" by blast
  with extract_with_body [OF Some] show ?thesis by (simp add: render_def)
qed

lemma first_valid_found:
  assumes "Some r \<in> set frames" and "html r \<noteq> []" and "html r \<noteq> ''<ul></ul>''"
  shows "\<exists>output. first_valid frames = Some output"
  using assms by (induction frames) (auto split: option.splits)

text \<open>
  C8 (as amended). For every page, also one with no product containers or no valid entry,
  the html the extractor returns is non-empty and is not the controller's empty-list
  sentinel \<open><ul></ul>\<close>. When the extraction does not fail internally, the html is the
  fixed head (the embedded stylesheet, the filter controls and the table skeleton), the
  rows and the closing tags; when it fails, the html is the error message. Hence, whenever
  a frame returns an extraction result, the loop over the frames finds a usable one, and
  the callback shows it or, when the platform reports an error, that error: the
  \<open>No results found.\<close> branch is not taken.
\<close>

theorem extractor_html_is_usable:
  \<open>html (extractAmazonResultsWithFrameInfo d) \<noteq> [] \<and>
   html (extractAmazonResultsWithFrameInfo d) \<noteq> ''<ul></ul>'' \<and>
   (body_innerHTML d \<noteq> None \<longrightarrow>
      (\<exists>rows. html (extractAmazonResultsWithFrameInfo d) =
                html_head @ rows @ ''</tbody></table>'')) \<and>
   (body_innerHTML d = None \<longrightarrow>
      html (extractAmazonResultsWithFrameInfo d) =
        ''Error extracting results: Cannot read properties of null (reading \'innerHTML\')'') \<and>
   (\<forall>frames. Some (extractAmazonResultsWithFrameInfo d) \<in> set frames \<longrightarrow>
      (\<exists>output. first_valid frames = Some output \<and>
         (\<forall>lastError. executeScript_callback lastError (Some frames) =
            (case lastError of
               None \<Rightarrow> SetInnerHTML output
             | Some m \<Rightarrow> SetInnerText (''Error: '' @ m)))))\<close>
proof -
  note v = html_valid [of d]
  have n: \<open>html (extractAmazonResultsWithFrameInfo d) =
      ''Error extracting results: Cannot read properties of null (reading \'innerHTML\')''\<close>
    if "body_innerHTML d = None"
    using extract_null_body [OF that] by simp
  have b: "\<exists>rows. html (extractAmazonResultsWithFrameInfo d) =
                html_head @ rows @ ''</tbody></table>''"
    if "body_innerHTML d \<noteq> None"
  proof -
    from that obtain page where "body_innerHTML d = Some page" by auto
    from extract_with_body [OF this] show ?thesis by (auto simp: render_def)
  qed
  have c: "\<exists>output. first_valid frames = Some output \<and>
         (\<forall>lastError. executeScript_callback lastError (Some frames) =
            (case lastError of
               None \<Rightarrow> SetInnerHTML output
             | Some m \<Rightarrow> SetInnerText (''Error: '' @ m)))"
    if "Some (extractAmazonResultsWithFrameInfo d) \<in> set frames" for frames
  proof -
    from first_valid_found [OF that] v obtain out where o: "first_valid frames = Some out"
      by blast
    moreover have "frames \<noteq> []" using that by auto
    ultimately show ?thesis
      by (simp add: executeScript_callback_def split: option.splits)
  qed
  from v b n c show ?thesis by blast
qed

lemma ex_doc_empty_eval:
  "extractAmazonResultsWithFrameInfo ex_doc_empty =
     \<lparr>frame_url = ''https://www.amazon.com/s?k=lamp'', html = html_head @ ''</tbody></table>''\<rparr>"
  by (simp add: extractAmazonResultsWithFrameInfo_def extract_try_def ex_doc_empty_def
      find_items_def Array_sort_def render_def)

text \<open>
  The amended C8 at a page without product containers, returned by the second of two
  frames: the html is the head and the closing tags, and the callback shows it.
\<close>

theorem extractor_html_is_usable_witness:
  "body_innerHTML ex_doc_empty \<noteq> None \<and>
   find_items ex_doc_empty = [] \<and>
   html (extractAmazonResultsWithFrameInfo ex_doc_empty) = html_head @ ''</tbody></table>'' \<and>
   html (extractAmazonResultsWithFrameInfo ex_doc_empty) \<noteq> [] \<and>
   html (extractAmazonResultsWithFrameInfo ex_doc_empty) \<noteq> ''<ul></ul>'' \<and>
   first_valid [None, Some (extractAmazonResultsWithFrameInfo ex_doc_empty)] =
     Some (html_head @ ''</tbody></table>'') \<and>
   executeScript_callback None (Some [None, Some (extractAmazonResultsWithFrameInfo ex_doc_empty)]) =
     SetInnerHTML (html_head @ ''</tbody></table>'')"
proof -
  let ?r = "extractAmazonResultsWithFrameInfo ex_doc_empty"
  note u = extractor_html_is_usable [of ex_doc_empty]
  have b: "body_innerHTML ex_doc_empty \<noteq> None" "find_items ex_doc_empty = []"
    by (simp_all add: ex_doc_empty_def find_items_def)
  have h: "html ?r = html_head @ ''</tbody></table>''"
    by (simp add: ex_doc_empty_eval)
  from u have v: "html ?r \<noteq> []" "html ?r \<noteq> ''<ul></ul>''" by blast+
  have "Some ?r \<in> set [None, Some ?r]" by simp
  with u obtain out where o: "first_valid [None, Some ?r] = Some out"
    and "\<forall>lastError. executeScript_callback lastError (Some [None, Some ?r]) =
       (case lastError of
          None \<Rightarrow> SetInnerHTML out
        | Some m \<Rightarrow> SetInnerText (''Error: '' @ m))"
    by blast
  then have e: "executeScript_callback None (Some [None, Some ?r]) = SetInnerHTML out"
    by simp
  from o v h have "out = html_head @ ''</tbody></table>''"
    by (simp split: if_splits)
  with b h v o e show ?thesis by simp
qed

text \<open>
  C8 as stated fails: on a page whose \<open>document.body\<close> is \<open>null\<close> the extraction fails
  internally and the html returned is the error message, which contains neither the
  stylesheet nor the filter controls nor the table.
\<close>

theorem extractor_html_counterexample:
  \<open>body_innerHTML ex_doc_null_body = None \<and>
   html (extractAmazonResultsWithFrameInfo ex_doc_null_body) =
     ''Error extracting results: Cannot read properties of null (reading \'innerHTML\')'' \<and>
   \<not> js_includes (html (extractAmazonResultsWithFrameInfo ex_doc_null_body)) ''<style>'' \<and>
   \<not> js_includes (html (extractAmazonResultsWithFrameInfo ex_doc_null_body)) ''filter-input'' \<and>
   \<not> js_includes (html (extractAmazonResultsWithFrameInfo ex_doc_null_body)) ''<table>''\<close>
proof -
  have n: "body_innerHTML ex_doc_null_body = None" by (simp add: ex_doc_null_body_def)
  note e = extract_null_body [OF n]
  have \<open>\<not> js_includes ''Error extracting results: Cannot read properties of null (reading \'innerHTML\')'' ''<style>''\<close>
    by code_simp
  moreover have \<open>\<not> js_includes ''Error extracting results: Cannot read properties of null (reading \'innerHTML\')'' ''filter-input''\<close>
    by code_simp
  moreover have \<open>\<not> js_includes ''Error extracting results: Cannot read properties of null (reading \'innerHTML\')'' ''<table>''\<close>
    by code_simp
  ultimately show ?thesis using n e by simp
qed

subsection \<open>A call of the extractor\<close>

lemma query_or_answers:
  assumes "list_all (\<lambda>s. \<exists>a. try_querySelector it s = Inr a) sels"
  shows "\<exists>a. query_or it sels = Inr a"
  using assms by (induction sels) (auto split: option.splits)

lemma query_delivery_answers:
  assumes "list_all (\<lambda>s. \<exists>a. try_querySelector it s = Inr a) sels"
  shows "query_delivery it sels = Inr ()"
  using assms by (induction sels) (auto simp: Let_def split: option.splits)

lemma item_answers_D:
  assumes "item_answers it" and "s \<in> set item_selectors"
  shows "\<exists>a. try_querySelector it s = Inr a"
  using assms by (simp add: item_answers_def list_all_iff)

lemma item_answers_sub:
  assumes "item_answers it" and "set sels \<subseteq> set item_selectors"
  shows "list_all (\<lambda>s. \<exists>a. try_querySelector it s = Inr a) sels"
  using assms by (auto simp: item_answers_def list_all_iff)

lemma query_price_answers:
  assumes "item_answers it"
  shows "query_price it = Inr ()"
proof -
  from item_answers_D [OF assms, of "''.a-price-whole''"]
  obtain w where w: "try_querySelector it ''.a-price-whole'' = Inr w"
    by (auto simp: item_selectors_def)
  from item_answers_D [OF assms, of "''.a-price''"]
  obtain p where p: "try_querySelector it ''.a-price'' = Inr p"
    by (auto simp: item_selectors_def)
  show ?thesis by (simp add: query_price_def w p Let_def)
qed

lemma loop_body_answers:
  assumes "item_answers it"
  shows "loop_body it = Inr (process_item (answered it))"
proof -
  have t: "\<exists>a. query_or it [''h2 a span'', ''.a-text-normal'', ''.a-link-normal span''] = Inr a"
    by (rule query_or_answers, rule item_answers_sub [OF assms]) (simp add: item_selectors_def)
  have u: "\<exists>a. query_or it [''h2 a'', ''.a-link-normal''] = Inr a"
    by (rule query_or_answers, rule item_answers_sub [OF assms]) (simp add: item_selectors_def)
  have f: "\<exists>a. try_querySelector it ''.a-price-fraction'' = Inr a"
    by (rule item_answers_D [OF assms]) (simp add: item_selectors_def)
  have d: "query_delivery it deliverySelectors = Inr ()"
    by (rule query_delivery_answers, rule item_answers_sub [OF assms]) (auto simp: item_selectors_def)
  have c: \<open>\<exists>a. query_or it [''.s-coupon-unclipped'', ''[data-csa-c-element-type="coupon"]''] = Inr a\<close>
    by (rule query_or_answers, rule item_answers_sub [OF assms]) (simp add: item_selectors_def)
  from t u f c obtain a1 a2 a3 a4 where
    "query_or it [''h2 a span'', ''.a-text-normal'', ''.a-link-normal span''] = Inr a1"
    "query_or it [''h2 a'', ''.a-link-normal''] = Inr a2"
    "try_querySelector it ''.a-price-fraction'' = Inr a3"
    \<open>query_or it [''.s-coupon-unclipped'', ''[data-csa-c-element-type="coupon"]''] = Inr a4\<close>
    by blast
  with d query_price_answers [OF assms] show ?thesis
    unfolding loop_body_def by (simp del: query_or.simps)
qed

lemma loop_items_answers:
  assumes "list_all item_answers items"
  shows "loop_items items = Inr (processedItems (map answered items))"
  using assms by (induction items) (auto simp: loop_body_answers split: option.splits)

lemma find_dom_items_answers:
  assumes "calls_answer d"
  shows "\<exists>items. find_dom_items d = Inr items \<and> list_all item_answers items \<and>
           map answered items = find_items (answered_document d)"
proof -
  from assms obtain i1 i2 i3 where
    1: \<open>try_querySelectorAll d ''[data-component-type="s-search-result"]'' = Inr i1\<close> "list_all item_answers i1"
    and 2: "try_querySelectorAll d ''.s-result-item'' = Inr i2" "list_all item_answers i2"
    and 3: "try_querySelectorAll d ''.sg-col-inner'' = Inr i3" "list_all item_answers i3"
    by (auto simp: calls_answer_def container_selectors_def)
  show ?thesis
    by (auto simp: find_dom_items_def find_items_def answered_document_def 1 2 3 Let_def)
qed

lemma try_block_answers:
  assumes "calls_answer d"
  shows "try_block d = extract_try (answered_document d)"
proof -
  from find_dom_items_answers [OF assms] obtain items where
    i: "find_dom_items d = Inr items" "list_all item_answers items"
       "map answered items = find_items (answered_document d)"
    by blast
  have b: "body_innerHTML (answered_document d) = doc_body d"
    "location_href (answered_document d) = doc_href d"
    by (simp_all add: answered_document_def)
  show ?thesis
    unfolding try_block_def extract_try_def i(1) Let_def b i(3) [symmetric]
    by (simp add: loop_items_answers [OF i(2)] split: option.splits)
qed

lemma call_answers:
  assumes "calls_answer d"
  shows "call_extractAmazonResultsWithFrameInfo d =
           Inr (extractAmazonResultsWithFrameInfo (answered_document d))"
  unfolding call_extractAmazonResultsWithFrameInfo_def extractAmazonResultsWithFrameInfo_def
    try_block_answers [OF assms] catch_block_def
  by (simp add: answered_document_def split: sum.splits)

lemma throwing_querySelectorAll:
  assumes \<open>try_querySelectorAll d ''[data-component-type="s-search-result"]'' = Inl err\<close>
  shows "try_block d = Inl err"
  using assms by (simp add: try_block_def find_dom_items_def)

lemma throwing_querySelector:
  assumes "find_dom_items d = Inr (it # items)" and "doc_body d = Some page"
    and "try_querySelector it ''h2 a span'' = Inl err"
  shows "try_block d = Inl err"
  using assms by (simp add: try_block_def loop_body_def)

text \<open>
  C5. A call of the injected function returns a result and raises nothing to its caller,
  on every page and whichever of its DOM calls throw. The result has the page's url. When
  the \<open>try\<close> block fails (a \<open>querySelectorAll\<close> or \<open>querySelector\<close> call throws, or the body
  is \<open>null\<close>), the html of the result is \<open>Error extracting results: \<close> followed by the message
  of what was thrown; when the block does not fail, the result is the block's; and when no
  call throws, the result is the one \<^const>\<open>extractAmazonResultsWithFrameInfo\<close> gives on the
  answers of the calls.
\<close>

theorem extractor_call_never_raises:
  "\<exists>r. call_extractAmazonResultsWithFrameInfo d = Inr r \<and>
       frame_url r = doc_href d \<and>
       (\<forall>err. try_block d = Inl err \<longrightarrow>
          html r = ''Error extracting results: '' @ message err) \<and>
       (\<forall>r'. try_block d = Inr r' \<longrightarrow> r = r') \<and>
       (calls_answer d \<longrightarrow> r = extractAmazonResultsWithFrameInfo (answered_document d))"
proof (cases "try_block d")
  case (Inl err)
  have "calls_answer d \<longrightarrow>
      \<lparr>frame_url = doc_href d, html = ''Error extracting results: '' @ message err\<rparr> =
      extractAmazonResultsWithFrameInfo (answered_document d)"
    using call_answers [of d] Inl
    by (simp add: call_extractAmazonResultsWithFrameInfo_def catch_block_def)
  with Inl show ?thesis
    by (simp add: call_extractAmazonResultsWithFrameInfo_def catch_block_def)
next
  case (Inr r)
  have u: "frame_url r = doc_href d"
    using Inr by (auto simp: try_block_def split: sum.splits option.splits)
  have "calls_answer d \<longrightarrow> r = extractAmazonResultsWithFrameInfo (answered_document d)"
    using call_answers [of d] Inr by (simp add: call_extractAmazonResultsWithFrameInfo_def)
  with Inr u show ?thesis by (simp add: call_extractAmazonResultsWithFrameInfo_def)
qed

text \<open>
  C5 at three pages: one whose body is \<open>null\<close>, one whose product container throws on
  \<open>querySelector\<close>, and one without product containers, where nothing fails.
\<close>

theorem extractor_call_never_raises_witness:
  \<open>calls_answer ex_dom_null_body \<and>
   try_block ex_dom_null_body =
     Inl (TypeError ''Cannot read properties of null (reading \'innerHTML\')'') \<and>
   call_extractAmazonResultsWithFrameInfo ex_dom_null_body =
     Inr \<lparr>frame_url = ''https://www.amazon.com/s?k=lamp'',
          html = ''Error extracting results: Cannot read properties of null (reading \'innerHTML\')''\<rparr> \<and>
   try_block ex_dom_throwing = Inl (TypeError ''Illegal invocation'') \<and>
   call_extractAmazonResultsWithFrameInfo ex_dom_throwing =
     Inr \<lparr>frame_url = ''https://www.amazon.com/s?k=lamp'',
          html = ''Error extracting results: Illegal invocation''\<rparr> \<and>
   try_block ex_dom_empty =
     Inr \<lparr>frame_url = ''https://www.amazon.com/s?k=lamp'',
          html = html_head @ ''</tbody></table>''\<rparr> \<and>
   call_extractAmazonResultsWithFrameInfo ex_dom_empty =
     Inr \<lparr>frame_url = ''https://www.amazon.com/s?k=lamp'',
          html = html_head @ ''</tbody></table>''\<rparr>\<close>
proof -
  have a: "calls_answer ex_dom_null_body"
    by (simp add: calls_answer_def container_selectors_def ex_dom_null_body_def)
  have n: \<open>try_block ex_dom_null_body =
      Inl (TypeError ''Cannot read properties of null (reading \'innerHTML\')'')\<close>
    by (simp add: try_block_def find_dom_items_def ex_dom_null_body_def)
  have t: "try_block ex_dom_throwing = Inl (TypeError ''Illegal invocation'')"
    by (simp add: try_block_def find_dom_items_def ex_dom_throwing_def loop_body_def)
  have e: "try_block ex_dom_empty =
      Inr \<lparr>frame_url = ''https://www.amazon.com/s?k=lamp'',
           html = html_head @ ''</tbody></table>''\<rparr>"
    by (simp add: try_block_def find_dom_items_def ex_dom_empty_def Array_sort_def render_def)
  have h: "doc_href ex_dom_null_body = ''https://www.amazon.com/s?k=lamp''"
    "doc_href ex_dom_throwing = ''https://www.amazon.com/s?k=lamp''"
    by (simp_all add: ex_dom_null_body_def ex_dom_throwing_def)
  from extractor_call_never_raises [of ex_dom_null_body] n h(1)
  have 1: \<open>call_extractAmazonResultsWithFrameInfo ex_dom_null_body =
     Inr \<lparr>frame_url = ''https://www.amazon.com/s?k=lamp'',
          html = ''Error extracting results: Cannot read properties of null (reading \'innerHTML\')''\<rparr>\<close>
    by (auto intro: frame_result.equality)
  from extractor_call_never_raises [of ex_dom_throwing] t h(2)
  have 2: "call_extractAmazonResultsWithFrameInfo ex_dom_throwing =
     Inr \<lparr>frame_url = ''https://www.amazon.com/s?k=lamp'',
          html = ''Error extracting results: Illegal invocation''\<rparr>"
    by (auto intro: frame_result.equality)
  from extractor_call_never_raises [of ex_dom_empty] e
  have 3: "call_extractAmazonResultsWithFrameInfo ex_dom_empty =
     Inr \<lparr>frame_url = ''https://www.amazon.com/s?k=lamp'',
          html = html_head @ ''</tbody></table>''\<rparr>"
    by auto
  from a n t e 1 2 3 show ?thesis by blast
qed

section \<open>Properties of the popup\<close>

subsection \<open>The checks before the injection\<close>

lemma is_amazon_url_iff:
  "is_amazon_url u =
     (\<exists>s w rest. (s = [] \<or> s = ''s'') \<and> (w = [] \<or> w = ''www.'') \<and>
        u = ''http'' @ s @ ''://'' @ w @ ''amazon.'' @ rest)"
proof
  assume a: "is_amazon_url u"
  define r where "r = drop 4 u"
  define r' where "r' = (if starts_with r ''s'' then drop 1 r else r)"
  define h where "h = drop 3 r'"
  from a have "starts_with u ''http'' \<and> starts_with r' ''://'' \<and>
      (starts_with h ''www.amazon.'' \<or> starts_with h ''amazon.'')"
    unfolding is_amazon_url_def Let_def r_def r'_def h_def .
  then have 1: "starts_with u ''http''" and 2: "starts_with r' ''://''"
    and 3: "starts_with h ''www.amazon.'' \<or> starts_with h ''amazon.''"
    by blast+
  from starts_with_drop [OF 1, of 4] have u: "u = ''http'' @ r" by (simp add: r_def)
  have "\<exists>s. (s = [] \<or> s = ''s'') \<and> r = s @ r'"
  proof (cases "starts_with r ''s''")
    case True
    from starts_with_drop [OF True, of 1] have "r = ''s'' @ r'" using True by (simp add: r'_def)
    then show ?thesis by blast
  next
    case False
    then have "r = [] @ r'" by (simp add: r'_def)
    then show ?thesis by blast
  qed
  then obtain s where s: "s = [] \<or> s = ''s''" "r = s @ r'" by blast
  from starts_with_drop [OF 2, of 3] have r': "r' = ''://'' @ h" by (simp add: h_def)
  from 3 have "\<exists>w rest. (w = [] \<or> w = ''www.'') \<and> h = w @ ''amazon.'' @ rest"
  proof
    assume "starts_with h ''www.amazon.''"
    from starts_with_drop [OF this, of 11] have "h = ''www.'' @ ''amazon.'' @ drop 11 h" by simp
    then show ?thesis by blast
  next
    assume "starts_with h ''amazon.''"
    from starts_with_drop [OF this, of 7] have "h = [] @ ''amazon.'' @ drop 7 h" by simp
    then show ?thesis by blast
  qed
  then obtain w rest where w: "w = [] \<or> w = ''www.''" "h = w @ ''amazon.'' @ rest" by blast
  have "u = ''http'' @ s @ ''://'' @ w @ ''amazon.'' @ rest"
    by (subst u, subst s(2), subst r', subst w(2)) simp
  with s(1) w(1) show "\<exists>s w rest. (s = [] \<or> s = ''s'') \<and> (w = [] \<or> w = ''www.'') \<and>
        u = ''http'' @ s @ ''://'' @ w @ ''amazon.'' @ rest"
    by blast
next
  assume "\<exists>s w rest. (s = [] \<or> s = ''s'') \<and> (w = [] \<or> w = ''www.'') \<and>
        u = ''http'' @ s @ ''://'' @ w @ ''amazon.'' @ rest"
  then show "is_amazon_url u"
    by (auto simp: is_amazon_url_def starts_with_def)
qed

text \<open>
  C6. When the active tab is missing, has no URL, or has a URL that does not match the
  site's pattern, the controller's only effect is to write a rejection message to the
  display area (when the popup has one), and the script is injected into no tab.
\<close>

theorem rejected_tab_is_not_injected:
  assumes "tab_rejected tabs"
  shows "handleExtract True (Inr tabs) inject = [SetInnerText (rejection_message tabs)] \<and>
         rejection_message tabs \<noteq> [] \<and>
         (\<forall>has_results n. ExecuteScript n \<notin> set (handleExtract has_results (Inr tabs) inject))"
proof (cases tabs)
  case Nil
  then show ?thesis by (simp add: handleExtract_def rejection_message_def)
next
  case (Cons tab others)
  show ?thesis
  proof (cases "tab_url tab")
    case None
    with Cons show ?thesis by (simp add: handleExtract_def rejection_message_def)
  next
    case (Some u)
    with Cons assms have "\<not> is_amazon_url u" by (simp add: tab_rejected_def)
    with Cons Some show ?thesis by (simp add: handleExtract_def rejection_message_def)
  qed
qed

lemma amazon_tab_is_injected:
  assumes "tab_url tab = Some u" and "is_amazon_url u"
  shows "hd (handleExtract True (Inr (tab # others)) inject) = ExecuteScript (tab_id tab)"
proof -
  from assms(2) have "u \<noteq> []" by (auto simp: is_amazon_url_def starts_with_def)
  with assms show ?thesis by (simp add: handleExtract_def split: option.splits)
qed

text \<open>C6 at a tab on another site whose URL mentions the site's name further on.\<close>

theorem rejected_tab_is_not_injected_witness:
  "tab_rejected [ex_tab_elsewhere] \<and>
   handleExtract True (Inr [ex_tab_elsewhere]) (\<lambda>n. None) =
     [SetInnerText ''Please navigate to an Amazon search results page.''] \<and>
   ExecuteScript 7 \<notin> set (handleExtract True (Inr [ex_tab_elsewhere]) (\<lambda>n. None))"
proof -
  have u: "\<not> is_amazon_url ''https://www.example.com/amazon.com''"
    by (simp add: is_amazon_url_def starts_with_def)
  then have r: "tab_rejected [ex_tab_elsewhere]"
    by (simp add: tab_rejected_def ex_tab_elsewhere_def)
  have m: "rejection_message [ex_tab_elsewhere] =
      ''Please navigate to an Amazon search results page.''"
    by (simp add: rejection_message_def ex_tab_elsewhere_def)
  from rejected_tab_is_not_injected [OF r, of "\<lambda>n. None"] m
  have "handleExtract True (Inr [ex_tab_elsewhere]) (\<lambda>n. None) =
          [SetInnerText ''Please navigate to an Amazon search results page.''] \<and>
        ExecuteScript 7 \<notin> set (handleExtract True (Inr [ex_tab_elsewhere]) (\<lambda>n. None))"
    by simp
  with r show ?thesis by simp
qed

subsection \<open>The filters\<close>

lemma toLowerCase_Nil_iff: "(toLowerCase v = []) = (v = [])"
  by (simp add: toLowerCase_def)

lemma showRow_of_spec:
  "showRow_of (toLowerCase f) a b r = (text_passes f r \<and> delivery_passes a b r)"
  by (auto simp: showRow_of_def text_passes_def delivery_passes_def Let_def toLowerCase_Nil_iff
      toLowerCase_def split: option.splits)

lemma showRow_of_classes:
  "showRow_of f a b (r\<lparr>row_classList := cs\<rparr>) = showRow_of f a b r"
  by (simp add: showRow_of_def)

lemma applyFilters_rows:
  "rows (applyFilters p) =
     map (\<lambda>r. if text_passes (filter_text p) r \<and> delivery_passes (today_active p) (tomorrow_active p) r
               then r\<lparr>row_classList := class_remove ''hidden'' (row_classList r)\<rparr>
               else r\<lparr>row_classList := class_add ''hidden'' (row_classList r)\<rparr>)
       (rows p)"
proof -
  have t: "(case filter_input p of Some v \<Rightarrow> toLowerCase v | None \<Rightarrow> []) = toLowerCase (filter_text p)"
    by (simp add: filter_text_def toLowerCase_def split: option.splits)
  show ?thesis
    unfolding applyFilters_def Let_def t
    by (simp add: showRow_of_spec today_active_def tomorrow_active_def)
qed

lemma applyFilters_controls:
  "filter_input (applyFilters p) = filter_input p"
  "today_filter (applyFilters p) = today_filter p"
  "tomorrow_filter (applyFilters p) = tomorrow_filter p"
  by (simp_all add: applyFilters_def Let_def)

lemma hidden_after_remove: "\<not> is_hidden (r\<lparr>row_classList := class_remove ''hidden'' cs\<rparr>)"
  by (simp add: is_hidden_def class_contains_def class_remove_def)

lemma hidden_after_add: "is_hidden (r\<lparr>row_classList := class_add ''hidden'' cs\<rparr>)"
  by (simp add: is_hidden_def class_contains_def class_add_def)

lemma content_after_remove:
  "row_content (r\<lparr>row_classList := class_remove ''hidden'' (row_classList r)\<rparr>) = row_content r"
  by (simp add: row_content_def class_remove_def)

lemma content_after_add:
  "row_content (r\<lparr>row_classList := class_add ''hidden'' (row_classList r)\<rparr>) = row_content r"
  by (simp add: row_content_def class_add_def)

text \<open>
  C4. After filter re-evaluation a row is hidden if and only if it fails the text test or
  the delivery test: it is shown exactly when (a) the text filter is empty or a
  case-insensitive substring of the row's link text and (b) no toggle is active or the row
  matches at least one active toggle. The rows stay the same rows in the same order, only
  their \<open>hidden\<close> class changes, and the controls are untouched.
\<close>

theorem filter_shows_matching_rows:
  "map is_hidden (rows (applyFilters p)) =
     map (\<lambda>r. \<not> (text_passes (filter_text p) r \<and>
                 delivery_passes (today_active p) (tomorrow_active p) r)) (rows p) \<and>
   map row_content (rows (applyFilters p)) = map row_content (rows p) \<and>
   filter_input (applyFilters p) = filter_input p \<and>
   today_filter (applyFilters p) = today_filter p \<and>
   tomorrow_filter (applyFilters p) = tomorrow_filter p"
  by (simp add: applyFilters_rows applyFilters_controls hidden_after_remove hidden_after_add
      content_after_remove content_after_add)

text \<open>
  C4 with both toggles active and no text filter: the Today row and the Tomorrow row are
  visible, the uncategorized row is hidden.
\<close>

theorem filter_shows_matching_rows_witness:
  "today_active ex_popup \<and> tomorrow_active ex_popup \<and> filter_text ex_popup = [] \<and>
   map is_hidden (rows (applyFilters ex_popup)) = [False, False, True] \<and>
   map link_text (rows (applyFilters ex_popup)) = [Some ''Lamp'', Some ''Mug'', Some ''Pen'']"
proof -
  have a: "today_active ex_popup" "tomorrow_active ex_popup" "filter_text ex_popup = []"
    by (simp_all add: today_active_def tomorrow_active_def filter_text_def ex_popup_def
        class_contains_def)
  have r: "rows ex_popup =
      [ex_row ''Lamp'' True False [''product-row''],
       ex_row ''Mug'' False True [''product-row'', ''hidden''],
       ex_row ''Pen'' False False [''product-row'']]"
    by (simp add: ex_popup_def)
  note f = filter_shows_matching_rows [of ex_popup]
  from f a have "map is_hidden (rows (applyFilters ex_popup)) = [False, False, True]"
    by (simp add: r text_passes_def delivery_passes_def ex_row_def bool_str_def)
  moreover have "map link_text (rows (applyFilters ex_popup)) =
      [Some ''Lamp'', Some ''Mug'', Some ''Pen'']"
  proof -
    from f have "map row_content (rows (applyFilters ex_popup)) = map row_content (rows ex_popup)"
      by (rule conjunct2 [THEN conjunct1])
    then have "map fst (map row_content (rows (applyFilters ex_popup))) =
        map fst (map row_content (rows ex_popup))"
      by (rule arg_cong)
    then have "map link_text (rows (applyFilters ex_popup)) = map link_text (rows ex_popup)"
      by (simp add: row_content_def comp_def)
    then show ?thesis by (simp add: r ex_row_def)
  qed
  ultimately show ?thesis using a by simp
qed

lemma class_add_idem: "class_add c (class_add c cs) = class_add c cs"
  by (simp add: class_add_def)

lemma class_remove_idem: "class_remove c (class_remove c cs) = class_remove c cs"
  by (simp add: class_remove_def)

lemma applyFilters_idem: "applyFilters (applyFilters p) = applyFilters p"
  by (simp add: applyFilters_def Let_def showRow_of_classes class_add_idem class_remove_idem
      comp_def if_distrib [of "\<lambda>r. showRow_of _ _ _ r"] cong: if_cong)

lemma class_remove_not_contains: "\<not> class_contains (class_remove c cs) c"
  by (simp add: class_contains_def class_remove_def)

lemma clear_filters_rows:
  "rows (on_click ''clear-filters'' p) =
     map (\<lambda>r. r\<lparr>row_classList := class_remove ''hidden'' (row_classList r)\<rparr>) (rows p)"
proof -
  let ?q = "p\<lparr>filter_input := map_option (\<lambda>v. []) (filter_input p),
             today_filter := map_option (class_remove ''active'') (today_filter p),
             tomorrow_filter := map_option (class_remove ''active'') (tomorrow_filter p)\<rparr>"
  have c: "on_click ''clear-filters'' p = applyFilters ?q"
    by (simp add: on_click_def Let_def)
  have "filter_text ?q = []" "\<not> today_active ?q" "\<not> tomorrow_active ?q"
    by (auto simp: filter_text_def today_active_def tomorrow_active_def class_remove_def
        class_contains_def split: option.splits)
  then show ?thesis
    unfolding c applyFilters_rows by (simp add: text_passes_def delivery_passes_def)
qed

text \<open>
  C7. Filter re-evaluation applied twice gives the state it gives applied once, so the
  same visible rows; it keeps the rows and their order. The clear-filters action leaves an
  empty text filter and inactive toggles, and after its re-evaluation every row is visible,
  the rows and their order being those before it.
\<close>

theorem filtering_is_idempotent:
  "applyFilters (applyFilters p) = applyFilters p \<and>
   visible_rows (applyFilters (applyFilters p)) = visible_rows (applyFilters p) \<and>
   map row_content (rows (applyFilters p)) = map row_content (rows p) \<and>
   visible_rows (on_click ''clear-filters'' p) = rows (on_click ''clear-filters'' p) \<and>
   map row_content (rows (on_click ''clear-filters'' p)) = map row_content (rows p) \<and>
   filter_text (on_click ''clear-filters'' p) = [] \<and>
   \<not> today_active (on_click ''clear-filters'' p) \<and>
   \<not> tomorrow_active (on_click ''clear-filters'' p)"
proof -
  have v: "visible_rows (on_click ''clear-filters'' p) = rows (on_click ''clear-filters'' p)"
    unfolding visible_rows_def clear_filters_rows
    by (simp add: hidden_after_remove)
  have c: "map row_content (rows (on_click ''clear-filters'' p)) = map row_content (rows p)"
    unfolding clear_filters_rows by (simp add: content_after_remove)
  have k: "map row_content (rows (applyFilters p)) = map row_content (rows p)"
    by (simp add: applyFilters_rows content_after_remove content_after_add)
  have s: "filter_text (on_click ''clear-filters'' p) = [] \<and>
      \<not> today_active (on_click ''clear-filters'' p) \<and>
      \<not> tomorrow_active (on_click ''clear-filters'' p)"
    by (auto simp: on_click_def Let_def applyFilters_controls filter_text_def today_active_def
        tomorrow_active_def class_remove_def class_contains_def split: option.splits)
  from v c k s show ?thesis by (simp add: applyFilters_idem)
qed

text \<open>C7 at the popup with both toggles active.\<close>

theorem filtering_is_idempotent_witness:
  "map is_hidden (rows (applyFilters ex_popup)) = [False, False, True] \<and>
   applyFilters (applyFilters ex_popup) = applyFilters ex_popup \<and>
   map is_hidden (rows (on_click ''clear-filters'' ex_popup)) = [False, False, False] \<and>
   map link_text (rows (on_click ''clear-filters'' ex_popup)) =
     [Some ''Lamp'', Some ''Mug'', Some ''Pen'']"
proof -
  note i = filtering_is_idempotent [of ex_popup]
  have h: "map is_hidden (rows (applyFilters ex_popup)) = [False, False, True]"
    by code_simp
  have c: "map is_hidden (rows (on_click ''clear-filters'' ex_popup)) = [False, False, False]"
    by code_simp
  have l: "map link_text (rows (on_click ''clear-filters'' ex_popup)) =
     [Some ''Lamp'', Some ''Mug'', Some ''Pen'']"
    by code_simp
  from i h c l show ?thesis by blast
qed

end
